theory Spec2Isabelle
  imports Complex_Main
begin

section \<open>Errors\<close>

text \<open>
  Every exception the modelled code can raise is a value.  \<open>ValueError\<close>,
  \<open>AssertionError\<close> are raised by the module itself; \<open>ZeroDivisionError\<close>,
  \<open>OverflowError\<close>, \<open>UnboundLocalError\<close>, \<open>NameError\<close>, \<open>AttributeError\<close>,
  \<open>IndexError\<close> and \<open>TypeError\<close> are raised by the Python interpreter; \<open>RuntimeError\<close> stands for
  the shape and index errors of the tensor library.
\<close>

datatype error =
    AssertionError
  | ValueError string
  | ZeroDivisionError
  | OverflowError
  | UnboundLocalError string
  | NameError string
  | AttributeError string
  | IndexError
  | TypeError
  | RuntimeError string

section \<open>Tensors\<close>

text \<open>
  A tensor is its shape and its elements, read by index tuple (row-major order, as
  the tensor library documents every operation).  Only indices inside the shape
  are meaningful.  Floating-point elements are idealised as reals; integer tensors
  (relative positions, marks, labels) have elements of type \<open>int\<close>.
\<close>

datatype 'a tensor = Tensor (shape: "nat list") (elt: "nat list \<Rightarrow> 'a")

definition rank :: "'a tensor \<Rightarrow> nat" where
  \<comment> \<open>\<open>t.dim()\<close>\<close>
  "rank t = length (shape t)"

fun indices :: "nat list \<Rightarrow> nat list list" where
  "indices [] = [[]]"
| "indices (n # ns) = concat (map (\<lambda>i. map ((#) i) (indices ns)) [0..<n])"

definition in_shape :: "nat list \<Rightarrow> nat list \<Rightarrow> bool" where
  "in_shape s idx \<longleftrightarrow> list_all2 (<) idx s"

definition ebind :: "error + 'a \<Rightarrow> ('a \<Rightarrow> error + 'b) \<Rightarrow> error + 'b" where
  "ebind m f = (case m of Inl e \<Rightarrow> Inl e | Inr v \<Rightarrow> f v)"

text \<open>
  Broadcasting: shapes are aligned at the right, a missing or size-one dimension
  is repeated.  \<open>bidx s idx\<close> is the index into an operand of shape \<open>s\<close> that a
  result index \<open>idx\<close> reads.
\<close>

definition bidx :: "nat list \<Rightarrow> nat list \<Rightarrow> nat list" where
  "bidx s idx = map2 (\<lambda>d i. if d = 1 then 0 else i) s (drop (length idx - length s) idx)"

definition pad_shape :: "nat \<Rightarrow> nat list \<Rightarrow> nat list" where
  "pad_shape n s = replicate (n - length s) 1 @ s"

definition broadcast_shapes :: "nat list \<Rightarrow> nat list \<Rightarrow> nat list option" where
  "broadcast_shapes s1 s2 =
     (let n = max (length s1) (length s2); a = pad_shape n s1; b = pad_shape n s2
      in if list_all2 (\<lambda>x y. x = y \<or> x = 1 \<or> y = 1) a b
         then Some (map2 (\<lambda>x y. if x = 1 then y else x) a b)
         else None)"

definition size_neg :: "'a tensor \<Rightarrow> nat \<Rightarrow> error + nat" where
  \<comment> \<open>\<open>t.size(-k)\<close> for \<open>k \<ge> 1\<close>\<close>
  "size_neg t k = (if 1 \<le> k \<and> k \<le> rank t then Inr (shape t ! (rank t - k)) else Inl IndexError)"

definition size_at :: "'a tensor \<Rightarrow> nat \<Rightarrow> error + nat" where
  \<comment> \<open>\<open>t.size(k)\<close> and \<open>t.size()[k]\<close> for \<open>k \<ge> 0\<close>\<close>
  "size_at t k = (if k < rank t then Inr (shape t ! k) else Inl IndexError)"

definition unsqueeze :: "nat \<Rightarrow> 'a tensor \<Rightarrow> 'a tensor" where
  \<comment> \<open>\<open>t.unsqueeze(d)\<close> for \<open>0 \<le> d \<le> t.dim()\<close>\<close>
  "unsqueeze d t = Tensor (take d (shape t) @ [1] @ drop d (shape t))
                          (\<lambda>idx. elt t (take d idx @ drop (Suc d) idx))"

definition tmap :: "('a \<Rightarrow> 'b) \<Rightarrow> 'a tensor \<Rightarrow> 'b tensor" where
  "tmap f t = Tensor (shape t) (\<lambda>idx. f (elt t idx))"

definition clamp :: "int tensor \<Rightarrow> int \<Rightarrow> int \<Rightarrow> int tensor" where
  \<comment> \<open>\<open>torch.clamp(t, lo, hi)\<close>: \<open>min(max(x, lo), hi)\<close> elementwise\<close>
  "clamp t lo hi = tmap (\<lambda>v. min (max v lo) hi) t"

definition slice_index :: "int \<Rightarrow> nat \<Rightarrow> nat" where
  \<comment> \<open>a bound of a Python slice, normalised against the length \<open>n\<close>\<close>
  "slice_index i n = (if i < 0 then nat (max 0 (i + int n)) else min (nat i) n)"

definition slice_rows :: "'a tensor \<Rightarrow> int \<Rightarrow> int \<Rightarrow> error + 'a tensor" where
  \<comment> \<open>\<open>t[a:b, :]\<close>\<close>
  "slice_rows t a b =
     (case shape t of
        n # m # rest \<Rightarrow>
          (let lo = slice_index a n; hi = slice_index b n
           in Inr (Tensor ((hi - lo) # m # rest) (\<lambda>idx. elt t ((hd idx + lo) # tl idx))))
      | _ \<Rightarrow> Inl IndexError)"

definition transpose_last :: "'a tensor \<Rightarrow> error + 'a tensor" where
  \<comment> \<open>\<open>t.transpose(-1, -2)\<close>\<close>
  "transpose_last t =
     (let r = rank t in
      if r < 2 then Inl IndexError
      else Inr (Tensor (take (r - 2) (shape t) @ [shape t ! (r - 1), shape t ! (r - 2)])
                       (\<lambda>idx. elt t (take (r - 2) idx @ [idx ! (r - 1), idx ! (r - 2)]))))"

definition matmul :: "real tensor \<Rightarrow> real tensor \<Rightarrow> error + real tensor" where
  \<comment> \<open>\<open>torch.matmul\<close> of two tensors of rank at least two: the batch dimensions
      broadcast, the inner dimensions must agree\<close>
  "matmul x y =
     (let rx = rank x; ry = rank y in
      if rx < 2 \<or> ry < 2 then Inl (RuntimeError ''matmul: rank'')
      else
        let m = shape x ! (rx - 2); k = shape x ! (rx - 1);
            k' = shape y ! (ry - 2); n = shape y ! (ry - 1);
            bx = take (rx - 2) (shape x); by = take (ry - 2) (shape y)
        in if k \<noteq> k' then Inl (RuntimeError ''matmul: shapes'')
           else (case broadcast_shapes bx by of
                   None \<Rightarrow> Inl (RuntimeError ''matmul: batch shapes'')
                 | Some bs \<Rightarrow>
                     Inr (Tensor (bs @ [m, n])
                       (\<lambda>idx. let b = take (length bs) idx;
                                  i = idx ! length bs; j = idx ! Suc (length bs)
                              in (\<Sum>l\<leftarrow>[0..<k]. elt x (bidx bx b @ [i, l]) * elt y (bidx by b @ [l, j]))))))"

definition expand :: "'a tensor \<Rightarrow> nat list \<Rightarrow> error + 'a tensor" where
  \<comment> \<open>\<open>t.expand(target)\<close>: every dimension of \<open>t\<close> is the target's or one\<close>
  "expand t target =
     (if length target < rank t then Inl (RuntimeError ''expand: rank'')
      else if list_all2 (\<lambda>d e. d = e \<or> d = 1) (pad_shape (length target) (shape t)) target
        then Inr (Tensor target (\<lambda>idx. elt t (bidx (shape t) idx)))
      else Inl (RuntimeError ''expand: shapes''))"

definition gather_last :: "'a tensor \<Rightarrow> int tensor \<Rightarrow> error + 'a tensor" where
  \<comment> \<open>\<open>torch.gather(x, dim=-1, index=ix)\<close>:
      \<open>out[..., j] = x[..., ix[..., j]]\<close>, with the shape of \<open>ix\<close>\<close>
  "gather_last x ix =
     (if rank ix \<noteq> rank x \<or> shape x = [] then Inl (RuntimeError ''gather: rank'')
      else if \<not> list_all2 (\<le>) (butlast (shape ix)) (butlast (shape x))
        then Inl (RuntimeError ''gather: index shape'')
      else if \<not> list_all (\<lambda>idx. 0 \<le> elt ix idx \<and> elt ix idx < int (last (shape x)))
                   (indices (shape ix))
        then Inl (RuntimeError ''gather: index out of range'')
      else Inr (Tensor (shape ix) (\<lambda>idx. elt x (butlast idx @ [nat (elt ix idx)]))))"

definition ravel :: "nat list \<Rightarrow> nat list \<Rightarrow> nat" where
  \<comment> \<open>the row-major offset of an index\<close>
  "ravel s idx = foldl (\<lambda>acc (d, i). acc * d + i) 0 (zip s idx)"

fun unravel :: "nat list \<Rightarrow> nat \<Rightarrow> nat list" where
  "unravel [] n = []"
| "unravel (d # ds) n = (n div prod_list ds) mod d # unravel ds (n mod prod_list ds)"

definition reshape :: "'a tensor \<Rightarrow> nat list \<Rightarrow> error + 'a tensor" where
  \<comment> \<open>\<open>torch.reshape(t, s)\<close> for an explicit shape \<open>s\<close>\<close>
  "reshape t s =
     (if prod_list s = prod_list (shape t)
      then Inr (Tensor s (\<lambda>idx. elt t (unravel (shape t) (ravel s idx))))
      else Inl (RuntimeError ''reshape: number of elements''))"

definition twhere :: "bool tensor \<Rightarrow> 'a tensor \<Rightarrow> 'a tensor \<Rightarrow> error + 'a tensor" where
  \<comment> \<open>\<open>torch.where(c, x, y)\<close>, the three operands broadcast together\<close>
  "twhere c x y =
     (case broadcast_shapes (shape x) (shape y) of
        None \<Rightarrow> Inl (RuntimeError ''where: shapes'')
      | Some s1 \<Rightarrow>
         (case broadcast_shapes (shape c) s1 of
            None \<Rightarrow> Inl (RuntimeError ''where: shapes'')
          | Some s \<Rightarrow> Inr (Tensor s (\<lambda>idx. if elt c (bidx (shape c) idx)
                                           then elt x (bidx (shape x) idx)
                                           else elt y (bidx (shape y) idx)))))"

definition tadd :: "real tensor \<Rightarrow> real tensor \<Rightarrow> error + real tensor" where
  \<comment> \<open>\<open>x + y\<close>, a new tensor of the broadcast shape\<close>
  "tadd x y =
     (case broadcast_shapes (shape x) (shape y) of
        None \<Rightarrow> Inl (RuntimeError ''add: shapes'')
      | Some s \<Rightarrow> Inr (Tensor s (\<lambda>idx. elt x (bidx (shape x) idx) + elt y (bidx (shape y) idx))))"

definition iadd :: "real tensor \<Rightarrow> real tensor \<Rightarrow> error + real tensor" where
  \<comment> \<open>\<open>x += y\<close> in place: \<open>y\<close> must broadcast to the shape of \<open>x\<close>, which is kept\<close>
  "iadd x y =
     (if broadcast_shapes (shape x) (shape y) = Some (shape x)
      then Inr (Tensor (shape x) (\<lambda>idx. elt x idx + elt y (bidx (shape y) idx)))
      else Inl (RuntimeError ''add_: shapes''))"

definition debug_item :: "'a tensor \<Rightarrow> nat list \<Rightarrow> error + unit" where
  \<comment> \<open>the chained integer indexing \<open>t[i][j]...\<close> inside the f-string of a
      \<open>log.debug\<close> call: the f-string is evaluated whatever the log level, and an
      index beyond a dimension raises \<open>IndexError\<close>\<close>
  "debug_item t js =
     (if length js \<le> rank t \<and> list_all2 (<) js (take (length js) (shape t))
      then Inr () else Inl IndexError)"

definition tmul :: "real tensor \<Rightarrow> real tensor \<Rightarrow> error + real tensor" where
  \<comment> \<open>\<open>x * y\<close>, a new tensor of the broadcast shape\<close>
  "tmul x y =
     (case broadcast_shapes (shape x) (shape y) of
        None \<Rightarrow> Inl (RuntimeError ''mul: shapes'')
      | Some s \<Rightarrow> Inr (Tensor s (\<lambda>idx. elt x (bidx (shape x) idx) * elt y (bidx (shape y) idx))))"

definition cat_last :: "'a tensor \<Rightarrow> 'a tensor \<Rightarrow> error + 'a tensor" where
  \<comment> \<open>\<open>torch.cat((x, y), dim=-1)\<close>\<close>
  "cat_last x y =
     (if shape x = [] \<or> shape y = [] \<or> butlast (shape x) \<noteq> butlast (shape y)
      then Inl (RuntimeError ''cat: shapes'')
      else Inr (Tensor (butlast (shape x) @ [last (shape x) + last (shape y)])
                  (\<lambda>idx. if last idx < last (shape x) then elt x idx
                         else elt y (butlast idx @ [last idx - last (shape x)]))))"

section \<open>Configuration\<close>

text \<open>
  \<open>hparams\<close> is an arbitrary Python object; every attribute is read with
  \<open>getattr(hparams, name, default)\<close>, so each field is optional.
\<close>

record hparams =
  hp_gamma :: "real option"
  hp_lr_adv :: "real option"
  hp_pivot_phrase_embeddings :: "bool option"
  hp_c2p_att_pp :: "bool option"
  hp_p2c_att_pp :: "bool option"
  hp_mark_embeddings :: "string option option"
  hp_c2m :: "bool option"
  hp_m2c :: "bool option"
  hp_c2m_scalar :: "real option"
  hp_m2c_scalar :: "real option"
  hp_mark_enhanced_classifier :: "bool option"

text \<open>
  The configuration object.  The first block are attributes of the base
  configuration; the second block are the attributes \<open>add_extra_args\<close> creates.
  An attribute that was never assigned is \<open>None\<close> (the code reads most of them
  with \<open>getattr(config, name, default)\<close>); \<open>cfg_mark_embeddings\<close> can be present
  with the Python value \<open>None\<close>, which is \<open>Some None\<close>.
\<close>

record config =
  hidden_size :: int
  num_attention_heads :: int
  num_hidden_layers :: nat
  max_position_embeddings :: int
  hidden_dropout_prob :: real
  attention_probs_dropout_prob :: real
  cfg_pos_att_type :: "string list option"
  cfg_relative_attention :: "bool option"
  cfg_max_relative_positions :: "int option"
  cfg_talking_head :: "bool option"
  gamma :: "real option"
  lr_adv :: "real option"
  cfg_pivot_phrase_embeddings :: "bool option"
  c2p_att_pp_enabled :: "bool option"
  p2c_att_pp_enabled :: "bool option"
  cfg_mark_embeddings :: "string option option"
  cfg_c2m :: "bool option"
  cfg_m2c :: "bool option"
  cfg_c2m_scalar :: "real option"
  cfg_m2c_scalar :: "real option"
  cfg_mark_enhanced_classifier :: "bool option"

definition getattr :: "'a option \<Rightarrow> 'a \<Rightarrow> 'a" where
  "getattr attr dflt = (case attr of None \<Rightarrow> dflt | Some v \<Rightarrow> v)"

text \<open>
  \<open>CustomDebertaConfig.add_extra_args\<close>: eleven assignments, then the assertion
  \<open>not ((c2m or m2c) and (c2p_att_pp_enabled or p2c_att_pp_enabled))\<close>.
\<close>

definition add_extra_args :: "hparams \<Rightarrow> config \<Rightarrow> error + config" where
  "add_extra_args hp cfg =
     (let cfg' = cfg\<lparr>
            gamma := Some (getattr (hp_gamma hp) (1 / 10000)),
            lr_adv := Some (getattr (hp_lr_adv hp) 10),
            cfg_pivot_phrase_embeddings := Some (getattr (hp_pivot_phrase_embeddings hp) False),
            c2p_att_pp_enabled := Some (getattr (hp_c2p_att_pp hp) False),
            p2c_att_pp_enabled := Some (getattr (hp_p2c_att_pp hp) False),
            cfg_mark_embeddings := Some (getattr (hp_mark_embeddings hp) None),
            cfg_c2m := Some (getattr (hp_c2m hp) False),
            cfg_m2c := Some (getattr (hp_m2c hp) False),
            cfg_c2m_scalar := Some (getattr (hp_c2m_scalar hp) 1),
            cfg_m2c_scalar := Some (getattr (hp_m2c_scalar hp) 1),
            cfg_mark_enhanced_classifier := Some (getattr (hp_mark_enhanced_classifier hp) False)\<rparr>
      in if \<not> ((getattr (cfg_c2m cfg') False \<or> getattr (cfg_m2c cfg') False)
               \<and> (getattr (c2p_att_pp_enabled cfg') False \<or> getattr (p2c_att_pp_enabled cfg') False))
         then Inr cfg'
         else Inl AssertionError)"

text \<open>Hyper-parameters that set no attribute at all, and a small base configuration.\<close>

definition no_hparams :: hparams where
  "no_hparams = \<lparr>hp_gamma = None, hp_lr_adv = None, hp_pivot_phrase_embeddings = None,
     hp_c2p_att_pp = None, hp_p2c_att_pp = None, hp_mark_embeddings = None,
     hp_c2m = None, hp_m2c = None, hp_c2m_scalar = None, hp_m2c_scalar = None,
     hp_mark_enhanced_classifier = None\<rparr>"

definition base_config :: config where
  "base_config = \<lparr>hidden_size = 8, num_attention_heads = 2, num_hidden_layers = 1,
     max_position_embeddings = 4, hidden_dropout_prob = 0, attention_probs_dropout_prob = 0,
     cfg_pos_att_type = Some [''c2p'', ''p2c''], cfg_relative_attention = Some True,
     cfg_max_relative_positions = None, cfg_talking_head = None,
     gamma = None, lr_adv = None, cfg_pivot_phrase_embeddings = None,
     c2p_att_pp_enabled = None, p2c_att_pp_enabled = None, cfg_mark_embeddings = None,
     cfg_c2m = None, cfg_m2c = None, cfg_c2m_scalar = None, cfg_m2c_scalar = None,
     cfg_mark_enhanced_classifier = None\<rparr>"

section \<open>Construction of the self-attention module\<close>

text \<open>
  The divisibility test of \<open>CustomDisentangledSelfAttention.__init__\<close>:
  \<open>config.hidden_size % config.num_attention_heads != 0\<close> raises \<open>ValueError\<close>.
  Python's \<open>%\<close> on integers takes the sign of the divisor, as \<open>mod\<close> on \<open>int\<close>
  does, and raises \<open>ZeroDivisionError\<close> for a zero divisor (where \<open>mod\<close> would
  return the dividend).
\<close>

definition hidden_size_check :: "config \<Rightarrow> error + unit" where
  "hidden_size_check cfg =
     (if num_attention_heads cfg = 0 then Inl ZeroDivisionError
      else if hidden_size cfg mod num_attention_heads cfg \<noteq> 0
        then Inl (ValueError ''The hidden size is not a multiple of the number of attention heads'')
      else Inr ())"

text \<open>
  \<open>int(config.hidden_size / config.num_attention_heads)\<close>.  On two Python
  integers \<open>/\<close> is true division: it raises \<open>ZeroDivisionError\<close> for a zero
  divisor and otherwise returns the double nearest to the exact quotient (ties to
  the even significand), or raises \<open>OverflowError\<close> when that is beyond the
  doubles.  \<open>float64 x\<close> rounds \<open>x\<close> to the 53 significant bits of a double;
  quotients below the normal range, which the machine rounds more coarsely, are
  truncated to zero by \<open>int\<close> either way.  \<open>int\<close> truncates towards zero.
\<close>

definition round_half_even :: "real \<Rightarrow> int" where
  "round_half_even x =
     (let f = \<lfloor>x\<rfloor>; d = x - of_int f
      in if d < 1 / 2 then f else if 1 / 2 < d then f + 1 else if even f then f else f + 1)"

definition float64 :: "real \<Rightarrow> real" where
  "float64 x =
     (if x = 0 then 0
      else let e = \<lfloor>log 2 \<bar>x\<bar>\<rfloor> - 52
           in of_int (round_half_even (x / 2 powr of_int e)) * 2 powr of_int e)"

definition int_trunc :: "real \<Rightarrow> int" where
  "int_trunc x = (if 0 \<le> x then \<lfloor>x\<rfloor> else \<lceil>x\<rceil>)"

definition int_of_true_division :: "int \<Rightarrow> int \<Rightarrow> error + int" where
  "int_of_true_division a b =
     (if b = 0 then Inl ZeroDivisionError
      else let q = float64 (of_int a / of_int b)
           in if 2 ^ 1024 \<le> \<bar>q\<bar> then Inl OverflowError else Inr (int_trunc q))"
section \<open>The disentangled self-attention module\<close>

text \<open>
  A \<open>torch.nn.Linear\<close> layer and the \<open>StableDropout\<close> layer belong to the
  libraries; they are parameters of the model.  A layer maps a tensor to a tensor
  or rejects it (\<open>None\<close>, reported as \<open>RuntimeError\<close>).
\<close>

type_synonym linear = "real tensor \<Rightarrow> real tensor option"

text \<open>
  A Python value held by \<open>score\<close> and by the entries of the tuple that
  \<open>disentangled_att_bias\<close> returns: \<open>None\<close>, a number or a tensor.
\<close>

datatype pyval = PyNone | PyNum real | PyTensor "real tensor"

text \<open>
  The attributes of a \<open>CustomDisentangledSelfAttention\<close> object that the modelled
  methods read.  An attribute that the constructor assigns only under a condition
  is optional: reading it when it was not assigned raises \<open>AttributeError\<close>.
\<close>

record self_attention =
  self_num_attention_heads :: int
  attention_head_size :: int
  all_head_size :: int
  pos_att_type :: "string list"
  relative_attention :: bool
  talking_head :: bool
  max_relative_positions :: "int option"
  c2m_scalar :: real
  m2c_scalar :: real
  pos_proj :: "linear option"
  pos_q_proj :: "linear option"
  mark_proj :: "linear option"
  mark_q_proj :: "linear option"
  pos_dropout :: "(real tensor option \<Rightarrow> real tensor option option) option"

text \<open>
  What the constructor calls in the libraries: the constructor of the base class
  \<open>DisentangledSelfAttention\<close>, \<open>torch.nn.Linear(in, out, bias)\<close>,
  \<open>torch.nn.Parameter(torch.zeros(n))\<close> and \<open>StableDropout(p)\<close>.  Each of them
  may raise (a negative size, for one); they are parameters of the model.
\<close>

record torch_library =
  lib_base_init :: "config \<Rightarrow> error + unit"
  lib_linear :: "int \<Rightarrow> int \<Rightarrow> bool \<Rightarrow> error + linear"
  lib_zeros :: "int \<Rightarrow> error + unit"
  lib_stable_dropout :: "real \<Rightarrow> error + (real tensor option \<Rightarrow> real tensor option option)"

definition append_new :: "string \<Rightarrow> string list \<Rightarrow> string list" where
  \<comment> \<open>\<open>if name not in xs: xs += [name]\<close>\<close>
  "append_new name xs = (if name \<notin> set xs then xs @ [name] else xs)"

definition optionally :: "bool \<Rightarrow> error + 'a \<Rightarrow> error + 'a option" where
  \<comment> \<open>a statement under \<open>if c:\<close> that assigns a variable\<close>
  "optionally c m = (if c then ebind m (\<lambda>v. Inr (Some v)) else Inr None)"

text \<open>
  Lines 165 to 214 of \<open>CustomDisentangledSelfAttention.__init__\<close>, what follows
  the divisibility test, statement by statement.  \<open>self.pos_att_type\<close> is the list
  object of the configuration (when that is not \<open>None\<close>), so the additions made
  with \<open>+=\<close> are seen through the configuration as well: the constructor returns
  the configuration it leaves behind.  Of the attributes assigned, the record keeps
  those that the modelled methods read.
\<close>

definition self_attention_build :: "torch_library \<Rightarrow> config \<Rightarrow> error + self_attention \<times> config" where
  "self_attention_build lib cfg =
     (let heads = num_attention_heads cfg in
      ebind (int_of_true_division (hidden_size cfg) heads) (\<lambda>head_size.
      let all_size = heads * head_size in
      ebind (lib_linear lib (hidden_size cfg) (all_size * 3) False) (\<lambda>in_proj.
      ebind (lib_zeros lib all_size) (\<lambda>q_bias.
      ebind (lib_zeros lib all_size) (\<lambda>v_bias.
      let pat0 = (case cfg_pos_att_type cfg of None \<Rightarrow> [] | Some l \<Rightarrow> l);
          rel = getattr (cfg_relative_attention cfg) False;
          talking = getattr (cfg_talking_head cfg) False;
          pat1 = (if getattr (c2p_att_pp_enabled cfg) False then append_new ''c2p_pp'' pat0 else pat0);
          pat2 = (if getattr (p2c_att_pp_enabled cfg) False then append_new ''p2c_pp'' pat1 else pat1);
          pat3 = (if getattr (cfg_c2m cfg) False then append_new ''c2m'' pat2 else pat2)
      in
      ebind (optionally (getattr (cfg_c2m cfg) False)
               (lib_linear lib (hidden_size cfg) all_size True)) (\<lambda>new_mark_proj.
      let pat4 = (if getattr (cfg_m2c cfg) False then append_new ''m2c'' pat3 else pat3) in
      ebind (optionally (getattr (cfg_m2c cfg) False)
               (lib_linear lib (hidden_size cfg) all_size True)) (\<lambda>new_mark_q_proj.
      ebind (optionally talking
               (ebind (lib_linear lib heads heads False) (\<lambda>head_logits_proj.
                  lib_linear lib heads heads False))) (\<lambda>head_weights_proj.
      let max_rel = getattr (cfg_max_relative_positions cfg) (- 1) in
      ebind (optionally rel (lib_stable_dropout lib (hidden_dropout_prob cfg))) (\<lambda>new_pos_dropout.
      ebind (optionally (rel \<and> (''c2p'' \<in> set pat4 \<or> ''p2p'' \<in> set pat4))
               (lib_linear lib (hidden_size cfg) all_size False)) (\<lambda>new_pos_proj.
      ebind (optionally (rel \<and> (''p2c'' \<in> set pat4 \<or> ''p2p'' \<in> set pat4))
               (lib_linear lib (hidden_size cfg) all_size True)) (\<lambda>new_pos_q_proj.
      ebind (lib_stable_dropout lib (attention_probs_dropout_prob cfg)) (\<lambda>dropout.
        Inr (\<lparr>self_num_attention_heads = heads,
                attention_head_size = head_size,
                all_head_size = all_size,
                pos_att_type = pat4,
                relative_attention = rel,
                talking_head = talking,
                max_relative_positions =
                  (if rel then Some (if max_rel < 1 then max_position_embeddings cfg else max_rel)
                   else None),
                c2m_scalar = getattr (cfg_c2m_scalar cfg) 1,
                m2c_scalar = getattr (cfg_m2c_scalar cfg) 1,
                pos_proj = new_pos_proj,
                pos_q_proj = new_pos_q_proj,
                mark_proj = new_mark_proj,
                mark_q_proj = new_mark_q_proj,
                pos_dropout = new_pos_dropout\<rparr>,
               (case cfg_pos_att_type cfg of
                  None \<Rightarrow> cfg
                | Some _ \<Rightarrow> cfg\<lparr>cfg_pos_att_type := Some pat4\<rparr>))))))))))))))"

text \<open>
  \<open>CustomDisentangledSelfAttention.__init__\<close>: the base constructor (line 159),
  the divisibility test (lines 160 to 164), then the rest.
\<close>

definition self_attention_init :: "torch_library \<Rightarrow> config \<Rightarrow> error + self_attention \<times> config" where
  "self_attention_init lib cfg =
     ebind (lib_base_init lib cfg) (\<lambda>_.
     ebind (hidden_size_check cfg) (\<lambda>_.
       self_attention_build lib cfg))"

text \<open>
  \<open>transpose_for_scores\<close>: \<open>x.view(*x.size()[:-1], heads, -1).permute(0, 2, 1, 3)\<close>.
  The permutation needs four dimensions, so \<open>x\<close> has three; the view needs a
  positive head count that divides the last dimension, and cannot infer \<open>-1\<close>
  when the other dimensions multiply to zero.
\<close>

definition transpose_for_scores :: "self_attention \<Rightarrow> 'a tensor \<Rightarrow> error + 'a tensor" where
  "transpose_for_scores self x =
     (case shape x of
        [b, s, a] \<Rightarrow>
          (let h = self_num_attention_heads self in
           if h \<le> 0 \<or> b * s = 0 \<or> int a mod h \<noteq> 0 then Inl (RuntimeError ''view'')
           else let d = a div nat h
                in Inr (Tensor [b, nat h, s, d]
                          (\<lambda>idx. elt x [idx ! 0, idx ! 2, (idx ! 1) * d + idx ! 3])))
      | _ \<Rightarrow> Inl (RuntimeError ''permute''))"

definition the_local :: "string \<Rightarrow> 'a option \<Rightarrow> error + 'a" where
  \<comment> \<open>reading a local variable that may not have been assigned\<close>
  "the_local name v = (case v of None \<Rightarrow> Inl (UnboundLocalError name) | Some x \<Rightarrow> Inr x)"

definition the_attr :: "string \<Rightarrow> 'a option \<Rightarrow> error + 'a" where
  \<comment> \<open>reading an attribute that may not have been assigned\<close>
  "the_attr name v = (case v of None \<Rightarrow> Inl (AttributeError name) | Some x \<Rightarrow> Inr x)"

definition apply_linear :: "string \<Rightarrow> linear option \<Rightarrow> real tensor option \<Rightarrow> error + real tensor" where
  \<comment> \<open>\<open>self.name(x)\<close> for a linear layer: the attribute is looked up first; \<open>x\<close> may be
      Python's \<open>None\<close>, which the layer rejects with \<open>TypeError\<close>\<close>
  "apply_linear name layer x =
     ebind (the_attr name layer) (\<lambda>f.
       case x of
         None \<Rightarrow> Inl TypeError
       | Some t \<Rightarrow> (case f t of None \<Rightarrow> Inl (RuntimeError name) | Some y \<Rightarrow> Inr y))"

definition project_layer ::
  "self_attention \<Rightarrow> string \<Rightarrow> linear option \<Rightarrow> real tensor option \<Rightarrow> error + real tensor" where
  \<comment> \<open>\<open>self.transpose_for_scores(self.name(x))\<close>\<close>
  "project_layer self name layer x = ebind (apply_linear name layer x) (transpose_for_scores self)"


text \<open>
  The two helpers imported from the transformer library:
  \<open>c2p_dynamic_expand(c2p_pos, query_layer, relative_pos)\<close> is
  \<open>c2p_pos.expand([query_layer.size(0), query_layer.size(1), query_layer.size(2),
  relative_pos.size(-1)])\<close>, and \<open>p2c_dynamic_expand(c2p_pos, query_layer, key_layer)\<close>
  is \<open>c2p_pos.expand([query_layer.size(0), query_layer.size(1), key_layer.size(-2),
  key_layer.size(-2)])\<close>.
\<close>

definition c2p_dynamic_expand :: "int tensor \<Rightarrow> real tensor \<Rightarrow> int tensor \<Rightarrow> error + int tensor" where
  "c2p_dynamic_expand c2p_pos query_layer relative_pos =
     ebind (size_at query_layer 0) (\<lambda>b.
     ebind (size_at query_layer 1) (\<lambda>h.
     ebind (size_at query_layer 2) (\<lambda>q.
     ebind (size_neg relative_pos 1) (\<lambda>k.
       expand c2p_pos [b, h, q, k]))))"

definition p2c_dynamic_expand :: "int tensor \<Rightarrow> real tensor \<Rightarrow> real tensor \<Rightarrow> error + int tensor" where
  "p2c_dynamic_expand c2p_pos query_layer key_layer =
     ebind (size_at query_layer 0) (\<lambda>b.
     ebind (size_at query_layer 1) (\<lambda>h.
     ebind (size_neg key_layer 2) (\<lambda>k.
       expand c2p_pos [b, h, k, k])))"

text \<open>
  Lines 330 to 339: the relative positions are brought to rank four.  When none
  are supplied the code calls \<open>build_relative_position\<close>, a name the module neither
  defines nor imports.
\<close>

definition normalize_relative_pos :: "real tensor \<Rightarrow> int tensor option \<Rightarrow> error + int tensor" where
  "normalize_relative_pos query_layer relative_pos =
     (case relative_pos of
        None \<Rightarrow> ebind (size_neg query_layer 2) (\<lambda>q. Inl (NameError ''build_relative_position''))
      | Some rp \<Rightarrow>
          if rank rp = 2 then Inr (unsqueeze 0 (unsqueeze 0 rp))
          else if rank rp = 3 then Inr (unsqueeze 1 rp)
          else if rank rp \<noteq> 4
            then Inl (ValueError ''Relative position ids must be of dim 2 or 3 or 4.'')
          else Inr rp)"

definition slice_embeddings :: "real tensor option \<Rightarrow> int \<Rightarrow> int \<Rightarrow> error + real tensor" where
  \<comment> \<open>\<open>emb[max_rel - att_span : max_rel + att_span, :].unsqueeze(0)\<close>\<close>
  "slice_embeddings emb max_rel att_span =
     (case emb of
        None \<Rightarrow> Inl TypeError
      | Some e \<Rightarrow> ebind (slice_rows e (max_rel - att_span) (max_rel + att_span))
                    (\<lambda>s. Inr (unsqueeze 0 s)))"

text \<open>Lines 351 to 373: the projected position, pivot-phrase and mark layers.
  A layer that was not computed is a local variable that was never assigned.\<close>

record att_layers =
  pos_key_layer :: "real tensor option"
  pos_query_layer :: "real tensor option"
  pp_key_layer :: "real tensor option"
  pp_query_layer :: "real tensor option"
  mark_query_layer :: "real tensor option"
  mark_key_layer :: "real tensor option"

definition projections ::
  "self_attention \<Rightarrow> real tensor \<Rightarrow> real tensor option \<Rightarrow> error + att_layers" where
  "projections self rel_embeddings mark_embeddings =
     (let pat = set (pos_att_type self) in
      ebind (optionally (''c2p'' \<in> pat \<or> ''p2p'' \<in> pat)
               (project_layer self ''pos_proj'' (pos_proj self) (Some rel_embeddings))) (\<lambda>pkl.
      ebind (optionally (''p2c'' \<in> pat \<or> ''p2p'' \<in> pat)
               (project_layer self ''pos_q_proj'' (pos_q_proj self) (Some rel_embeddings))) (\<lambda>pql.
      ebind (optionally (''c2p_pp'' \<in> pat)
               (project_layer self ''pos_proj'' (pos_proj self) mark_embeddings)) (\<lambda>ppk.
      ebind (optionally (''p2c_pp'' \<in> pat)
               (project_layer self ''pos_q_proj'' (pos_q_proj self) mark_embeddings)) (\<lambda>ppq.
      ebind (optionally (''m2c'' \<in> pat)
               (project_layer self ''mark_q_proj'' (mark_q_proj self) mark_embeddings)) (\<lambda>mql.
      ebind (optionally (''c2m'' \<in> pat)
               (project_layer self ''mark_proj'' (mark_proj self) mark_embeddings)) (\<lambda>mkl.
        Inr \<lparr>pos_key_layer = pkl, pos_query_layer = pql, pp_key_layer = ppk,
             pp_query_layer = ppq, mark_query_layer = mql, mark_key_layer = mkl\<rparr>)))))))"

text \<open>
  Lines 377 to 398, the content-to-position term.  \<open>c2p_att_orig\<close> is the gathered
  position-derived term; with the pivot-phrase variant the marks, reshaped to
  \<open>(batch, 1, 1, sequence)\<close>, select between the pivot-phrase term and it.  The
  \<open>log.debug\<close> calls format elements of the tensors, including those of the second
  example of the batch.
\<close>

record c2p_result =
  c2p_att :: "real tensor"
  c2p_att_orig :: "real tensor"
  c2p_att_pp :: "real tensor option"

definition c2p_pivot_phrase_marks :: "int tensor \<Rightarrow> error + int tensor" where
  \<comment> \<open>\<open>torch.reshape(marks, (marks.size()[0], 1, 1, marks.size()[1]))\<close>\<close>
  "c2p_pivot_phrase_marks marks =
     ebind (size_at marks 0) (\<lambda>b. ebind (size_at marks 1) (\<lambda>s. reshape marks [b, 1, 1, s]))"

definition c2p_gather ::
  "real tensor \<Rightarrow> real tensor \<Rightarrow> int tensor \<Rightarrow> int tensor \<Rightarrow> error + real tensor" where
  \<comment> \<open>\<open>torch.gather(torch.matmul(query_layer, layer.transpose(-1, -2)), dim=-1,
        index=c2p_dynamic_expand(c2p_pos, query_layer, relative_pos))\<close>\<close>
  "c2p_gather query_layer layer c2p_pos relative_pos =
     ebind (transpose_last layer) (\<lambda>lt.
     ebind (matmul query_layer lt) (\<lambda>a.
     ebind (c2p_dynamic_expand c2p_pos query_layer relative_pos) (\<lambda>ix.
       gather_last a ix)))"

definition c2p_term ::
  "self_attention \<Rightarrow> real tensor \<Rightarrow> int tensor \<Rightarrow> int \<Rightarrow> att_layers \<Rightarrow>
   real tensor option \<Rightarrow> int tensor option \<Rightarrow> error + c2p_result" where
  "c2p_term self query_layer relative_pos att_span layers mark_embeddings marks =
     ebind (the_local ''pos_key_layer'' (pos_key_layer layers)) (\<lambda>pkl.
     let c2p_pos = clamp (tmap (\<lambda>v. v + att_span) relative_pos) 0 (att_span * 2 - 1) in
     ebind (c2p_gather query_layer pkl c2p_pos relative_pos) (\<lambda>att.
       case marks of
         Some m \<Rightarrow>
           if mark_embeddings \<noteq> None \<and> ''c2p_pp'' \<in> set (pos_att_type self) then
             ebind (c2p_pivot_phrase_marks m) (\<lambda>sel.
             ebind (the_local ''pp_key_layer'' (pp_key_layer layers)) (\<lambda>ppk.
             ebind (c2p_gather query_layer ppk c2p_pos relative_pos) (\<lambda>pp.
             ebind (twhere (tmap (\<lambda>v. v = 1) sel) pp att) (\<lambda>w.
             ebind (debug_item sel [0, 0, 0]) (\<lambda>_.
             ebind (debug_item w [0, 0]) (\<lambda>_.
             ebind (debug_item sel [1, 0, 0]) (\<lambda>_.
             ebind (debug_item w [1, 0]) (\<lambda>_.
               Inr \<lparr>c2p_att = w, c2p_att_orig = att, c2p_att_pp = Some pp\<rparr>))))))))
           else Inr \<lparr>c2p_att = att, c2p_att_orig = att, c2p_att_pp = None\<rparr>
       | None \<Rightarrow> Inr \<lparr>c2p_att = att, c2p_att_orig = att, c2p_att_pp = None\<rparr>))"

text \<open>
  Lines 402 to 410: the position query layer is scaled in place and the
  position-to-content index is clamped.  When the query and key lengths differ the
  code calls \<open>build_relative_position\<close>, the undefined name; so below this point the
  two lengths are equal, and the re-gathering of lines 410 and 418 is never reached.
\<close>

definition p2c_positions ::
  "real tensor \<Rightarrow> real tensor \<Rightarrow> int tensor \<Rightarrow> int \<Rightarrow> nat \<Rightarrow> att_layers \<Rightarrow>
   error + real tensor \<times> int tensor" where
  "p2c_positions query_layer key_layer relative_pos att_span scale_factor layers =
     ebind (the_local ''pos_query_layer'' (pos_query_layer layers)) (\<lambda>pql.
     ebind (size_neg pql 1) (\<lambda>d.
     let pql' = tmap (\<lambda>v. v / sqrt (real (d * scale_factor))) pql in
     ebind (size_neg query_layer 2) (\<lambda>q.
     ebind (size_neg key_layer 2) (\<lambda>k.
       if q \<noteq> k then Inl (NameError ''build_relative_position'')
       else Inr (pql', clamp (tmap (\<lambda>v. - v + att_span) relative_pos) 0 (att_span * 2 - 1))))))"

text \<open>
  Lines 412 to 440, the position-to-content term.  The position-derived term is
  gathered and then transposed; the pivot-phrase term is gathered and not
  transposed; the marks, reshaped to \<open>(batch, 1, sequence, 1)\<close>, select between
  them.  The first four \<open>log.debug\<close> calls run for every configuration with
  \<open>p2c\<close>.
\<close>

record p2c_result =
  p2c_att :: "real tensor"
  p2c_att_orig :: "real tensor"
  p2c_att_pp :: "real tensor option"

definition p2c_pivot_phrase_marks :: "int tensor \<Rightarrow> error + int tensor" where
  \<comment> \<open>\<open>torch.reshape(marks, (marks.size()[0], 1, marks.size()[1], 1))\<close>\<close>
  "p2c_pivot_phrase_marks marks =
     ebind (size_at marks 0) (\<lambda>b. ebind (size_at marks 1) (\<lambda>s. reshape marks [b, 1, s, 1]))"

definition p2c_gather ::
  "real tensor \<Rightarrow> real tensor \<Rightarrow> real tensor \<Rightarrow> int tensor \<Rightarrow> error + real tensor" where
  \<comment> \<open>\<open>torch.gather(torch.matmul(key_layer, layer.transpose(-1, -2)), dim=-1,
        index=p2c_dynamic_expand(p2c_pos, query_layer, key_layer))\<close>\<close>
  "p2c_gather query_layer key_layer layer p2c_pos =
     ebind (transpose_last layer) (\<lambda>lt.
     ebind (matmul key_layer lt) (\<lambda>a.
     ebind (p2c_dynamic_expand p2c_pos query_layer key_layer) (\<lambda>ix.
       gather_last a ix)))"

definition p2c_term ::
  "self_attention \<Rightarrow> real tensor \<Rightarrow> real tensor \<Rightarrow> real tensor \<Rightarrow> int tensor \<Rightarrow> att_layers \<Rightarrow>
   real tensor option \<Rightarrow> int tensor option \<Rightarrow> error + p2c_result" where
  "p2c_term self query_layer key_layer pql p2c_pos layers mark_embeddings marks =
     ebind (p2c_gather query_layer key_layer pql p2c_pos) (\<lambda>g.
     ebind (transpose_last g) (\<lambda>att.
     ebind (debug_item att [0, 0]) (\<lambda>_.
     ebind (debug_item att [1, 0]) (\<lambda>_.
       case marks of
         Some m \<Rightarrow>
           if mark_embeddings \<noteq> None \<and> ''p2c_pp'' \<in> set (pos_att_type self) then
             ebind (p2c_pivot_phrase_marks m) (\<lambda>sel.
             ebind (the_local ''pp_query_layer'' (pp_query_layer layers)) (\<lambda>ppq.
             ebind (p2c_gather query_layer key_layer ppq p2c_pos) (\<lambda>pp.
             ebind (twhere (tmap (\<lambda>v. v = 1) sel) pp att) (\<lambda>w.
             ebind (debug_item sel [0, 0]) (\<lambda>_.
             ebind (debug_item w [0, 0]) (\<lambda>_.
             ebind (debug_item sel [1, 0]) (\<lambda>_.
             ebind (debug_item w [1, 0]) (\<lambda>_.
               Inr \<lparr>p2c_att = w, p2c_att_orig = att, p2c_att_pp = Some pp\<rparr>))))))))
           else Inr \<lparr>p2c_att = att, p2c_att_orig = att, p2c_att_pp = None\<rparr>
       | None \<Rightarrow> Inr \<lparr>p2c_att = att, p2c_att_orig = att, p2c_att_pp = None\<rparr>))))"

text \<open>
  \<open>score += t\<close>.  \<open>score\<close> starts as the integer \<open>0\<close>; the first addition creates a
  tensor, the later ones add in place.
\<close>

definition score_iadd :: "pyval \<Rightarrow> real tensor \<Rightarrow> error + pyval" where
  "score_iadd score t =
     (case score of
        PyNone \<Rightarrow> Inl TypeError
      | PyNum c \<Rightarrow> Inr (PyTensor (tmap (\<lambda>v. c + v) t))
      | PyTensor s \<Rightarrow> ebind (iadd s t) (\<lambda>r. Inr (PyTensor r)))"

definition add_term :: "pyval \<Rightarrow> real tensor option \<Rightarrow> error + pyval" where
  \<comment> \<open>\<open>score += t\<close> when the term was computed\<close>
  "add_term score t = (case t of None \<Rightarrow> Inr score | Some x \<Rightarrow> score_iadd score x)"

text \<open>Lines 443 to 454: the unscaled content-to-mark and mark-to-content products.\<close>

definition c2m_product :: "real tensor \<Rightarrow> att_layers \<Rightarrow> error + real tensor" where
  \<comment> \<open>\<open>torch.matmul(query_layer, mark_key_layer.transpose(-1, -2))\<close>\<close>
  "c2m_product query_layer layers =
     ebind (the_local ''mark_key_layer'' (mark_key_layer layers)) (\<lambda>mkl.
     ebind (transpose_last mkl) (\<lambda>mt. matmul query_layer mt))"

definition m2c_product :: "real tensor \<Rightarrow> att_layers \<Rightarrow> error + real tensor" where
  \<comment> \<open>\<open>torch.matmul(mark_query_layer, key_layer.transpose(-1, -2))\<close>\<close>
  "m2c_product key_layer layers =
     ebind (the_local ''mark_query_layer'' (mark_query_layer layers)) (\<lambda>mql.
     ebind (transpose_last key_layer) (\<lambda>kt. matmul mql kt))"

definition opt_pyval :: "real tensor option \<Rightarrow> pyval" where
  "opt_pyval t = (case t of None \<Rightarrow> PyNone | Some x \<Rightarrow> PyTensor x)"

text \<open>
  \<open>CustomDisentangledSelfAttention.disentangled_att_bias\<close>.  The result is the
  tuple \<open>(score, c2p_att_orig, p2c_att_orig)\<close>, extended by
  \<open>(c2p_att_pp, p2c_att_pp)\<close> and by \<open>(c2m_att, m2c_att)\<close> for the configurations
  that have them.  \<open>c2p_att_orig\<close> and \<open>p2c_att_orig\<close> are assigned only inside
  the \<open>c2p\<close> and \<open>p2c\<close> blocks.
\<close>

definition disentangled_att_bias ::
  "self_attention \<Rightarrow> real tensor \<Rightarrow> real tensor \<Rightarrow> int tensor option \<Rightarrow> real tensor option \<Rightarrow>
   nat \<Rightarrow> real tensor option \<Rightarrow> int tensor option \<Rightarrow> error + pyval list" where
  "disentangled_att_bias self query_layer key_layer relative_pos rel_embeddings scale_factor
       mark_embeddings marks =
     (let pat = set (pos_att_type self) in
      ebind (normalize_relative_pos query_layer relative_pos) (\<lambda>relative_pos.
      ebind (size_neg query_layer 2) (\<lambda>q.
      ebind (size_neg key_layer 2) (\<lambda>k.
      ebind (the_attr ''max_relative_positions'' (max_relative_positions self)) (\<lambda>max_rel.
      let att_span = min (int (max q k)) max_rel in
      ebind (slice_embeddings rel_embeddings max_rel att_span) (\<lambda>rel_embeddings.
      ebind (if ''c2p_pp'' \<in> pat \<or> ''p2c_pp'' \<in> pat
             then ebind (slice_embeddings mark_embeddings max_rel att_span) (\<lambda>m. Inr (Some m))
             else Inr mark_embeddings) (\<lambda>mark_embeddings.
      ebind (projections self rel_embeddings mark_embeddings) (\<lambda>layers.
      ebind (optionally (''c2p'' \<in> pat)
               (c2p_term self query_layer relative_pos att_span layers mark_embeddings marks)) (\<lambda>c2p.
      ebind (add_term (PyNum 0) (map_option c2p_att c2p)) (\<lambda>score.
      ebind (optionally (''p2c'' \<in> pat \<or> ''p2p'' \<in> pat)
               (p2c_positions query_layer key_layer relative_pos att_span scale_factor layers)) (\<lambda>pos.
      ebind (optionally (''p2c'' \<in> pat)
               (ebind (the_local ''pos_query_layer'' pos) (\<lambda>(pql, p2c_pos).
                  p2c_term self query_layer key_layer pql p2c_pos layers mark_embeddings marks))) (\<lambda>p2c.
      ebind (add_term score (map_option p2c_att p2c)) (\<lambda>score.
      ebind (optionally (''c2m'' \<in> pat)
               (ebind (c2m_product query_layer layers) (\<lambda>t.
                  Inr (tmap (\<lambda>v. v * c2m_scalar self) t)))) (\<lambda>c2m_att.
      ebind (add_term score c2m_att) (\<lambda>score.
      ebind (optionally (''m2c'' \<in> pat)
               (ebind (m2c_product key_layer layers) (\<lambda>t.
                  Inr (tmap (\<lambda>v. v * m2c_scalar self) t)))) (\<lambda>m2c_att.
      ebind (add_term score m2c_att) (\<lambda>score.
      ebind (the_local ''c2p_att_orig'' (map_option c2p_att_orig c2p)) (\<lambda>c2p_orig.
      ebind (the_local ''p2c_att_orig'' (map_option p2c_att_orig p2c)) (\<lambda>p2c_orig.
      ebind (if ''c2p_pp'' \<in> pat \<or> ''p2c_pp'' \<in> pat
             then ebind (the_local ''c2p_att_pp'' (map_option c2p_att_pp c2p)) (\<lambda>cpp.
                  ebind (the_local ''p2c_att_pp'' (map_option p2c_att_pp p2c)) (\<lambda>ppp.
                    Inr [opt_pyval cpp, opt_pyval ppp]))
             else Inr []) (\<lambda>pp_part.
        Inr ([score, PyTensor c2p_orig, PyTensor p2c_orig] @ pp_part
             @ (if ''c2m'' \<in> pat \<or> ''m2c'' \<in> pat
                then [opt_pyval c2m_att, opt_pyval m2c_att] else []))))))))))))))))))))))"

text \<open>
  Lines 283 to 302 of \<open>forward\<close>: from the projected query and key layers to the
  raw attention scores handed to the masked softmax.  The result keeps the
  content-to-content scores and the tuple of \<open>disentangled_att_bias\<close>, as the
  method does for \<open>return_att\<close>.
\<close>

record att_scores =
  attention_scores :: "real tensor"
  c2c_att :: "real tensor"
  attns :: "pyval list"

definition scaled_query :: "self_attention \<Rightarrow> real tensor \<Rightarrow> error + real tensor" where
  \<comment> \<open>\<open>query_layer / math.sqrt(query_layer.size(-1) * scale_factor)\<close>\<close>
  "scaled_query self query_layer =
     ebind (size_neg query_layer 1) (\<lambda>d.
       Inr (tmap (\<lambda>v. v / sqrt (real (d * (1 + length (pos_att_type self))))) query_layer))"

definition apply_dropout ::
  "(real tensor option \<Rightarrow> real tensor option option) option \<Rightarrow> real tensor option \<Rightarrow>
   error + real tensor option" where
  \<comment> \<open>\<open>self.pos_dropout(x)\<close>; the layer may reject its argument (\<open>None\<close> in training mode)\<close>
  "apply_dropout layer x =
     ebind (the_attr ''pos_dropout'' layer) (\<lambda>f.
       case f x of None \<Rightarrow> Inl TypeError | Some v \<Rightarrow> Inr v)"

definition raw_attention_scores ::
  "self_attention \<Rightarrow> real tensor \<Rightarrow> real tensor \<Rightarrow> int tensor option \<Rightarrow> real tensor option \<Rightarrow>
   real tensor option \<Rightarrow> int tensor option \<Rightarrow> error + att_scores" where
  "raw_attention_scores self query_layer key_layer relative_pos rel_embeddings mark_embeddings marks =
     (let scale_factor = 1 + length (pos_att_type self) in
      ebind (scaled_query self query_layer) (\<lambda>query_layer.
      ebind (transpose_last key_layer) (\<lambda>kt.
      ebind (matmul query_layer kt) (\<lambda>scores.
        if relative_attention self then
          ebind (apply_dropout (pos_dropout self) rel_embeddings) (\<lambda>rel_embeddings.
          ebind (apply_dropout (pos_dropout self) mark_embeddings) (\<lambda>mark_embeddings.
          ebind (disentangled_att_bias self query_layer key_layer relative_pos rel_embeddings
                   scale_factor mark_embeddings marks) (\<lambda>out.
            case hd out of
              PyNone \<Rightarrow> Inr \<lparr>attention_scores = scores, c2c_att = scores, attns = out\<rparr>
            | PyNum c \<Rightarrow>
                Inr \<lparr>attention_scores = tmap (\<lambda>v. v + c) scores, c2c_att = scores, attns = out\<rparr>
            | PyTensor rel_att \<Rightarrow>
                ebind (tadd scores rel_att) (\<lambda>s.
                  Inr \<lparr>attention_scores = s, c2c_att = scores, attns = out\<rparr>))))
        else Inr \<lparr>attention_scores = scores, c2c_att = scores, attns = []\<rparr>))))"

text \<open>
  The reference for the refinement claim: the standard two-term disentangled
  attention score, the sum of the content-to-position and the position-to-content
  terms, accumulated as the unmodified base class does (\<open>score = 0\<close>,
  \<open>score += c2p_att\<close>, \<open>score += p2c_att\<close>).
\<close>

definition standard_two_term_score :: "real tensor \<Rightarrow> real tensor \<Rightarrow> error + real tensor" where
  "standard_two_term_score c2p p2c = iadd (tmap (\<lambda>v. 0 + v) c2p) p2c"

section \<open>The encoder and the model\<close>

text \<open>
  An encoder layer (\<open>CustomDebertaLayer\<close>): attention, intermediate and output
  blocks, as a function of the key/value states, the attention mask, the optional
  query states, the mark embeddings and the marks.  The relative positions and the
  relative embeddings, which library methods compute and hand unchanged to every
  layer, are part of the function.  Attention matrices (\<open>output_attentions\<close>) are
  not modelled.
\<close>

type_synonym layer =
  "real tensor \<Rightarrow> int tensor \<Rightarrow> real tensor option \<Rightarrow> real tensor option \<Rightarrow> int tensor option
   \<Rightarrow> error + real tensor"

record encoder =
  enc_layer :: "layer list"
  enc_relative_attention :: bool
  enc_pivot_phrase_embeddings :: "real tensor option"
  enc_mark_embeddings :: "real tensor option"

text \<open>
  \<open>CustomDebertaEncoder.__init__\<close>: the two embedding tables exist only with
  relative attention; the pivot-phrase table when its flag is set, the mark table
  when the configuration has an attribute \<open>mark_embeddings\<close> at all.
\<close>

definition encoder_init :: "layer list \<Rightarrow> real tensor \<Rightarrow> real tensor \<Rightarrow> config \<Rightarrow> encoder" where
  "encoder_init layers pp_weight mark_weight cfg =
     (let rel = getattr (cfg_relative_attention cfg) False in
      \<lparr>enc_layer = layers,
       enc_relative_attention = rel,
       enc_pivot_phrase_embeddings =
         (if rel \<and> getattr (cfg_pivot_phrase_embeddings cfg) False then Some pp_weight else None),
       enc_mark_embeddings =
         (if rel \<and> cfg_mark_embeddings cfg \<noteq> None then Some mark_weight else None)\<rparr>)"

text \<open>
  Lines 598 to 604: the local variable \<open>mark_embeddings\<close> is assigned only when one
  of the two tables exists (the result \<open>None\<close> is the unassigned variable).  With
  the mark table it is \<open>torch.where(marks.unsqueeze(-1) == 0, row 0, row 1)\<close>.
\<close>

definition embedding_row :: "real tensor \<Rightarrow> nat \<Rightarrow> real tensor" where
  \<comment> \<open>\<open>torch.reshape(weight[r], (1, 1, -1))\<close> for a table of rank two\<close>
  "embedding_row w r = Tensor [1, 1, shape w ! 1] (\<lambda>idx. elt w [r, idx ! 2])"

definition encoder_mark_embeddings :: "encoder \<Rightarrow> int tensor option \<Rightarrow> error + real tensor option" where
  "encoder_mark_embeddings enc marks =
     (case enc_mark_embeddings enc of
        None \<Rightarrow> Inr (enc_pivot_phrase_embeddings enc)
      | Some w \<Rightarrow>
          if rank w \<noteq> 2 \<or> shape w ! 0 \<noteq> 2 then Inl (ValueError ''unpack'')
          else (case marks of
                  None \<Rightarrow> Inl TypeError
                | Some m \<Rightarrow>
                    ebind (twhere (tmap (\<lambda>v. v = 0) (unsqueeze (rank m) m))
                             (embedding_row w 0) (embedding_row w 1))
                      (\<lambda>t. Inr (Some t))))"

text \<open>
  The loop over the layers (lines 606 to 634), for \<open>query_states = None\<close>: every
  layer receives the previous layer's output; \<open>acc\<close> collects
  \<open>all_hidden_states\<close>.
\<close>

fun run_layers ::
  "layer list \<Rightarrow> int tensor \<Rightarrow> real tensor option \<Rightarrow> int tensor option \<Rightarrow> real tensor \<Rightarrow>
   real tensor list \<Rightarrow> error + real tensor \<times> real tensor list" where
  "run_layers [] am me marks h acc = Inr (h, acc)"
| "run_layers (l # ls) am me marks h acc =
     ebind (the_local ''mark_embeddings'' me) (\<lambda>m.
     ebind (l h am None (Some m) marks) (\<lambda>h'.
       run_layers ls am me marks h' (acc @ [h])))"

record model_output =
  last_hidden_state :: "real tensor"
  hidden_states :: "real tensor list"

definition encoder_forward ::
  "encoder \<Rightarrow> real tensor \<Rightarrow> int tensor \<Rightarrow> int tensor option \<Rightarrow> error + model_output" where
  "encoder_forward enc hidden am marks =
     ebind (encoder_mark_embeddings enc marks) (\<lambda>me.
     ebind (run_layers (enc_layer enc) am me marks hidden []) (\<lambda>(h, acc).
       Inr \<lparr>last_hidden_state = h, hidden_states = acc @ [h]\<rparr>))"

text \<open>
  The inputs of \<open>CustomDebertaModel.forward\<close>, and the model: its embeddings module
  (a library module, a parameter here), its encoder, \<open>z_steps\<close> and its
  configuration.  \<open>forward\<close> assigns no attribute of the model.
\<close>

record model_inputs =
  input_ids :: "int tensor option"
  attention_mask :: "int tensor option"
  token_type_ids :: "int tensor option"
  position_ids :: "int tensor option"
  inputs_embeds :: "real tensor option"

record deberta_model =
  embeddings :: "model_inputs \<Rightarrow> error + real tensor"
  model_encoder :: encoder
  z_steps :: int
  model_config :: config

definition custom_deberta_model_init ::
  "(model_inputs \<Rightarrow> error + real tensor) \<Rightarrow> encoder \<Rightarrow> config \<Rightarrow> deberta_model" where
  "custom_deberta_model_init emb enc cfg =
     \<lparr>embeddings = emb, model_encoder = enc, z_steps = 0, model_config = cfg\<rparr>"

definition scale_perturbation :: "real \<Rightarrow> pyval \<Rightarrow> error + real tensor" where
  \<comment> \<open>\<open>gamma * perturbation\<close>; a number stays a number, seen as a tensor of rank 0\<close>
  "scale_perturbation g p =
     (case p of
        PyNone \<Rightarrow> Inl TypeError
      | PyNum c \<Rightarrow> Inr (Tensor [] (\<lambda>_. g * c))
      | PyTensor t \<Rightarrow> Inr (tmap (\<lambda>v. g * v) t))"

definition add_perturbation :: "config \<Rightarrow> real tensor \<Rightarrow> pyval \<Rightarrow> error + real tensor" where
  \<comment> \<open>\<open>embedding_output += self.config.gamma * perturbation\<close>\<close>
  "add_perturbation cfg emb p =
     ebind (the_attr ''gamma'' (gamma cfg)) (\<lambda>g.
     ebind (scale_perturbation g p) (\<lambda>gp. iadd emb gp))"

text \<open>
  Lines 713 to 729, the refinement after the stack.  \<open>encoded_layers\<close> is a tuple,
  so the first \<open>append\<close> raises.
\<close>

definition refinement_steps ::
  "deberta_model \<Rightarrow> real tensor list \<Rightarrow> int tensor \<Rightarrow> error + real tensor list" where
  "refinement_steps m encoded_layers am =
     (if length encoded_layers < 2 \<or> enc_layer (model_encoder m) = [] then Inl IndexError
      else
        ebind (last (enc_layer (model_encoder m))
                 (encoded_layers ! (length encoded_layers - 2)) am
                 (Some (last encoded_layers)) None None) (\<lambda>query_states.
          Inl (AttributeError ''append'')))"

text \<open>
  Lines 673 to 701 of \<open>CustomDebertaModel.forward\<close>: the input shape, the default
  masks, the embeddings and the perturbation added to them; the result is
  \<open>embedding_output\<close> and the attention mask handed to the encoder.
\<close>

definition embedding_stage ::
  "deberta_model \<Rightarrow> model_inputs \<Rightarrow> bool \<Rightarrow> pyval \<Rightarrow> string option \<Rightarrow>
   error + real tensor \<times> int tensor" where
  "embedding_stage m inp VAT perturbation mode =
     ebind (case (input_ids inp, inputs_embeds inp) of
              (Some _, Some _) \<Rightarrow>
                Inl (ValueError ''You cannot specify both input_ids and inputs_embeds at the same time'')
            | (Some ids, None) \<Rightarrow> Inr (shape ids)
            | (None, Some e) \<Rightarrow> Inr (butlast (shape e))
            | (None, None) \<Rightarrow>
                Inl (ValueError ''You have to specify either input_ids or inputs_embeds'')) (\<lambda>input_shape.
     let am = (case attention_mask inp of None \<Rightarrow> Tensor input_shape (\<lambda>_. 1) | Some a \<Rightarrow> a);
         tt = (case token_type_ids inp of None \<Rightarrow> Tensor input_shape (\<lambda>_. 0) | Some t \<Rightarrow> t)
     in
     ebind (embeddings m (inp\<lparr>attention_mask := Some am, token_type_ids := Some tt\<rparr>)) (\<lambda>emb.
     ebind (if VAT \<and> mode = Some ''train''
            then add_perturbation (model_config m) emb perturbation
            else Inr emb) (\<lambda>embedding_output.
       Inr (embedding_output, am))))"

text \<open>
  \<open>CustomDebertaModel.forward\<close>: the embedding stage, the encoder (line 703), the
  refinement under \<open>if self.z_steps > 1\<close> (line 713) and the output (lines 731 to
  740).
\<close>

definition custom_deberta_forward ::
  "deberta_model \<Rightarrow> model_inputs \<Rightarrow> bool \<Rightarrow> pyval \<Rightarrow> string option \<Rightarrow> int tensor option \<Rightarrow>
   error + model_output" where
  "custom_deberta_forward m inp VAT perturbation mode marks =
     ebind (embedding_stage m inp VAT perturbation mode) (\<lambda>(embedding_output, am).
     ebind (encoder_forward (model_encoder m) embedding_output am marks) (\<lambda>encoder_outputs.
     let encoded_layers = hidden_states encoder_outputs in
     ebind (if z_steps m > 1 then refinement_steps m encoded_layers am
            else Inr encoded_layers) (\<lambda>encoded_layers.
       Inr \<lparr>last_hidden_state = last encoded_layers,
            hidden_states = hidden_states encoder_outputs\<rparr>)))"

section \<open>The token-classification head\<close>

text \<open>
  \<open>CrossEntropyLoss()\<close> of the tensor library, with its defaults: the mean, over
  the targets different from \<open>ignore_index = -100\<close>, of the negative
  log-softmax of the target's logit.  A target outside \<open>[0, C)\<close> that is not the
  ignore index is rejected.  With no target left the library returns not-a-number;
  the quotient by zero is \<open>0\<close> here.
\<close>

definition ignore_index :: int where
  "ignore_index = - 100"

definition nll :: "real list \<Rightarrow> int \<Rightarrow> real" where
  \<comment> \<open>the negative log-softmax of row \<open>x\<close> at class \<open>t\<close>\<close>
  "nll x t = ln (\<Sum>v\<leftarrow>x. exp v) - x ! nat t"

definition cross_entropy_loss :: "real list list \<Rightarrow> int list \<Rightarrow> error + real" where
  "cross_entropy_loss rows targets =
     (if length rows \<noteq> length targets then Inl (ValueError ''batch size'')
      else if \<not> list_all (\<lambda>(x, t). t = ignore_index \<or> (0 \<le> t \<and> t < int (length x)))
                   (zip rows targets)
        then Inl IndexError
      else let active = filter (\<lambda>(x, t). t \<noteq> ignore_index) (zip rows targets)
           in Inr ((\<Sum>(x, t)\<leftarrow>active. nll x t) / real (length active)))"

definition flatten :: "'a tensor \<Rightarrow> 'a list" where
  \<comment> \<open>\<open>t.view(-1)\<close>\<close>
  "flatten t = map (elt t) (indices (shape t))"

fun chunks :: "nat \<Rightarrow> nat \<Rightarrow> 'a list \<Rightarrow> 'a list list" where
  "chunks 0 c xs = []"
| "chunks (Suc n) c xs = take c xs # chunks n c (drop c xs)"

definition view_rows :: "real tensor \<Rightarrow> int \<Rightarrow> error + real list list" where
  \<comment> \<open>\<open>logits.view(-1, num_labels)\<close>\<close>
  "view_rows logits c =
     (let xs = flatten logits in
      if c \<le> 0 \<or> int (length xs) mod c \<noteq> 0 then Inl (RuntimeError ''view'')
      else Inr (chunks (length xs div nat c) (nat c) xs))"

definition where_labels :: "bool list \<Rightarrow> int list \<Rightarrow> int \<Rightarrow> error + int list" where
  \<comment> \<open>\<open>torch.where(active_loss, labels.view(-1), torch.tensor(dflt))\<close>: the two vectors
      have the same length, or one of them has length one and is repeated\<close>
  "where_labels active labels dflt =
     (if length active = length labels
        then Inr (map (\<lambda>(a, l). if a then l else dflt) (zip active labels))
      else if length active = 1
        then Inr (map (\<lambda>l. if hd active then l else dflt) labels)
      else if length labels = 1
        then Inr (map (\<lambda>a. if a then hd labels else dflt) active)
      else Inl (RuntimeError ''where: shapes''))"

text \<open>
  Lines 959 to 969 (and, with the same text, 912 to 922 and 806 to 816): the loss
  of the token-classification head for logits and labels.
\<close>

definition token_classification_loss ::
  "int \<Rightarrow> real tensor \<Rightarrow> int tensor option \<Rightarrow> int tensor \<Rightarrow> error + real" where
  "token_classification_loss num_labels logits amask labels =
     (case amask of
        Some am \<Rightarrow>
          (let active_loss = map (\<lambda>v. v = 1) (flatten am) in
           ebind (view_rows logits num_labels) (\<lambda>active_logits.
           ebind (where_labels active_loss (flatten labels) ignore_index) (\<lambda>active_labels.
             cross_entropy_loss active_logits active_labels)))
      | None \<Rightarrow>
          ebind (view_rows logits num_labels) (\<lambda>rows.
            cross_entropy_loss rows (flatten labels)))"

definition mask_seen :: "int tensor \<Rightarrow> nat \<Rightarrow> int" where
  \<comment> \<open>the attention-mask value that token position \<open>i\<close> (of the flattened batch) is
      compared with: a mask with a single element is repeated over all positions\<close>
  "mask_seen am i = (let a = flatten am in if length a = 1 then a ! 0 else a ! i)"

section \<open>Virtual adversarial training\<close>

text \<open>
  What the head can observe of the automatic differentiation of the tensor
  library.  A loss computed from a tensor \<open>x\<close> while gradients are recorded is a
  function of \<open>x\<close>, the recorded computation; \<open>loss.backward()\<close> differentiates
  it at the value of \<open>x\<close>.  \<open>is_gradient L x g\<close> says that \<open>g\<close> is the gradient
  of \<open>L\<close> at \<open>x\<close>: it has the shape of \<open>x\<close>, and its element at every index is
  the derivative of \<open>L\<close> in that element of \<open>x\<close>.
\<close>

definition bump :: "real tensor \<Rightarrow> nat list \<Rightarrow> real \<Rightarrow> real tensor" where
  \<comment> \<open>\<open>x\<close> with \<open>t\<close> added to its element at \<open>idx\<close>\<close>
  "bump x idx t = Tensor (shape x) ((elt x)(idx := elt x idx + t))"

definition is_gradient :: "(real tensor \<Rightarrow> error + real) \<Rightarrow> real tensor \<Rightarrow> real tensor \<Rightarrow> bool" where
  "is_gradient L x g \<longleftrightarrow>
     shape g = shape x
     \<and> (\<forall>idx \<in> set (indices (shape x)).
          ((\<lambda>t. projr (L (bump x idx t))) has_real_derivative elt g idx) (at 0))"

text \<open>
  The engine is a component of the library and a parameter of the model: from the
  recorded computation and the value it was run on, it yields the gradient with
  respect to that value (kept on the tensor by \<open>retain_grad\<close>) and a contribution
  that it adds to the gradient buffers of the parameters.
\<close>

record 'g autograd =
  grad_wrt_sample :: "(real tensor \<Rightarrow> error + real) \<Rightarrow> real tensor \<Rightarrow> real tensor"
  grad_wrt_parameters :: "(real tensor \<Rightarrow> error + real) \<Rightarrow> real tensor \<Rightarrow> 'g"

text \<open>
  \<open>with torch.no_grad()\<close>: the computation \<open>f\<close> is run on the value \<open>x\<close> and
  nothing is recorded, so that for a later differentiation the result is the
  constant \<open>f x\<close>, whatever \<open>f\<close> does with its argument.
\<close>

definition no_grad :: "('x \<Rightarrow> error + 'a) \<Rightarrow> 'x \<Rightarrow> ('x \<Rightarrow> error + 'a)" where
  "no_grad f x = (\<lambda>_. f x)"

text \<open>
  The head \<open>CustomDebertaForTokenClassification\<close>.  \<open>param_grads\<close> is the content of
  the gradient buffers of all its parameters: the list of the backward passes
  accumulated in them since they were last cleared.  Dropout and the layers are
  functions: the random draws of dropout are not modelled.
\<close>

record 'g token_head =
  head_deberta :: deberta_model
  head_dropout :: "real tensor \<Rightarrow> real tensor"
  classifier :: linear
  mark_enhanced_classifier :: "linear option"
  head_num_labels :: int
  head_config :: config
  param_grads :: "'g list"

definition aspect_idx_mask :: "int tensor \<Rightarrow> int \<Rightarrow> error + real tensor" where
  \<comment> \<open>lines 881 to 883: \<open>(labels == 1).float() + (labels == 2).float()\<close>, then
      \<open>unsqueeze(2)\<close> (which needs rank two at least) and
      \<open>repeat(1, 1, hidden_size)\<close> (which needs rank three at most)\<close>
  "aspect_idx_mask labels hidden =
     (if rank labels < 2 then Inl IndexError
      else if rank labels > 2 \<or> hidden < 0 then Inl (RuntimeError ''repeat'')
      else Inr (Tensor (shape labels @ [nat hidden])
                  (\<lambda>idx. (if elt labels (butlast idx) = 1 then 1 else 0)
                         + (if elt labels (butlast idx) = 2 then 1 else 0))))"

definition apply_classifier :: "string \<Rightarrow> linear \<Rightarrow> real tensor \<Rightarrow> error + real tensor" where
  "apply_classifier name f x = (case f x of None \<Rightarrow> Inl (RuntimeError name) | Some y \<Rightarrow> Inr y)"

definition first_pass_loss ::
  "'g token_head \<Rightarrow> model_inputs \<Rightarrow> int tensor \<Rightarrow> int tensor option \<Rightarrow> real tensor \<Rightarrow> error + real" where
  \<comment> \<open>lines 889 to 922: the loss of the first pass, as computed from the masked sample\<close>
  "first_pass_loss head inp labels marks r_adv_masked =
     ebind (custom_deberta_forward (head_deberta head) inp True (PyTensor r_adv_masked)
              (Some ''train'') marks) (\<lambda>outputs.
     ebind (apply_classifier ''classifier'' (classifier head)
              (head_dropout head (last_hidden_state outputs))) (\<lambda>logits.
       token_classification_loss (head_num_labels head) logits (attention_mask inp) labels))"

text \<open>
  \<open>loss.backward()\<close> for a loss recorded as \<open>L\<close> from the tensor \<open>x\<close>: the gradient
  stored on \<open>x\<close>, and the head with the contribution added to the buffers of its
  parameters.  \<open>self.zero_grad()\<close> clears the buffers of the parameters of the
  module, and nothing else.
\<close>

definition backward ::
  "'g autograd \<Rightarrow> (real tensor \<Rightarrow> error + real) \<Rightarrow> real tensor \<Rightarrow> 'g token_head \<Rightarrow>
   real tensor \<times> 'g token_head" where
  "backward ag L x head =
     (grad_wrt_sample ag L x,
      head\<lparr>param_grads := param_grads head @ [grad_wrt_parameters ag L x]\<rparr>)"

definition zero_grad :: "'g token_head \<Rightarrow> 'g token_head" where
  "zero_grad head = head\<lparr>param_grads := []\<rparr>"

definition new_perturbation :: "real tensor \<Rightarrow> real \<Rightarrow> real tensor \<Rightarrow> real tensor \<Rightarrow> error + real tensor" where
  \<comment> \<open>line 927: \<open>aspect_idx_mask * (r_adv_masked + lr_adv * r_adv_masked.grad)\<close>, as
      a computation on \<open>r_adv_masked\<close>; the gradient is a plain tensor\<close>
  "new_perturbation aspect_mask lr g r_adv_masked =
     ebind (tadd r_adv_masked (tmap (\<lambda>v. lr * v) g)) (\<lambda>moved. tmul aspect_mask moved)"

text \<open>
  Lines 877 to 928, the branch \<open>if VAT and mode == "train"\<close>: the sample
  \<open>torch.rand(size)\<close> is a parameter (\<open>rand\<close> gives its elements).  The result is
  the state in which the branch is left: the new perturbation; the computation
  recorded for it, as a function of the masked sample of the first pass; the masked
  sample and the gradient stored on it; and the head after \<open>loss.backward()\<close> and
  \<open>self.zero_grad()\<close>.
\<close>

record 'g vat_state =
  vat_perturbation_value :: "real tensor"
  vat_recorded :: "real tensor \<Rightarrow> error + real tensor"
  vat_sample :: "real tensor"
  vat_sample_grad :: "real tensor option"
  vat_head :: "'g token_head"

definition vat_perturbation ::
  "'g token_head \<Rightarrow> 'g autograd \<Rightarrow> (nat list \<Rightarrow> nat list \<Rightarrow> real) \<Rightarrow> model_inputs \<Rightarrow>
   int tensor option \<Rightarrow> int tensor option \<Rightarrow> error + 'g vat_state" where
  "vat_perturbation head ag rand inp labels marks =
     (case labels of
        None \<Rightarrow> Inl (AttributeError ''to'')
      | Some l \<Rightarrow>
          ebind (aspect_idx_mask l (hidden_size (head_config head))) (\<lambda>aspect_mask.
          let r_adv = Tensor (shape aspect_mask) (rand (shape aspect_mask)) in
          ebind (tmul r_adv aspect_mask) (\<lambda>r_adv_masked.
          ebind (first_pass_loss head inp l marks r_adv_masked) (\<lambda>loss.
          let (g, head1) = backward ag (first_pass_loss head inp l marks) r_adv_masked head in
          ebind (the_attr ''lr_adv'' (lr_adv (head_config head1))) (\<lambda>lr.
          let recorded = no_grad (new_perturbation aspect_mask lr g) r_adv_masked in
          ebind (recorded r_adv_masked) (\<lambda>perturbation.
            Inr \<lparr>vat_perturbation_value = perturbation,
                 vat_recorded = recorded,
                 vat_sample = r_adv_masked,
                 vat_sample_grad = Some g,
                 vat_head = zero_grad head1\<rparr>))))))"

text \<open>
  Lines 931 to 970, the normal pass, which is the second pass of the adversarial
  training: the loss (when there are labels), the logits and the hidden states,
  computed from the perturbation handed to the model.
\<close>

definition pass_outputs ::
  "'g token_head \<Rightarrow> model_inputs \<Rightarrow> int tensor option \<Rightarrow> bool \<Rightarrow> string option \<Rightarrow>
   int tensor option \<Rightarrow> pyval \<Rightarrow> error + real option \<times> real tensor \<times> real tensor list" where
  "pass_outputs head inp labels VAT mode marks perturbation =
     ebind (custom_deberta_forward (head_deberta head) inp VAT perturbation mode marks) (\<lambda>outputs.
     let sequence_output = head_dropout head (last_hidden_state outputs) in
     ebind (case mark_enhanced_classifier head of
              Some f \<Rightarrow>
                (case marks of
                   None \<Rightarrow> Inl (AttributeError ''unsqueeze'')
                 | Some m \<Rightarrow>
                     ebind (cat_last sequence_output (unsqueeze (rank m) (tmap real_of_int m)))
                       (apply_classifier ''mark_enhanced_classifier'' f))
            | None \<Rightarrow> apply_classifier ''classifier'' (classifier head) sequence_output) (\<lambda>logits.
     ebind (case labels of
              None \<Rightarrow> Inr None
            | Some l \<Rightarrow>
                ebind (token_classification_loss (head_num_labels head) logits (attention_mask inp) l)
                  (\<lambda>v. Inr (Some v))) (\<lambda>loss.
       Inr (loss, logits, hidden_states outputs))))"

text \<open>
  The output of \<open>forward\<close>.  \<open>loss_recorded\<close> is the computation recorded for the
  returned loss as a function of the masked sample of the first pass: the pass run
  on what is recorded for the perturbation.  It is what a later
  \<open>loss.backward()\<close> differentiates (without labels there is no loss, and
  nothing to call \<open>backward\<close> on).
\<close>

record head_output =
  out_loss :: "real option"
  out_logits :: "real tensor"
  out_hidden_states :: "real tensor list"
  loss_recorded :: "real tensor \<Rightarrow> error + real"

definition second_pass ::
  "'g token_head \<Rightarrow> model_inputs \<Rightarrow> int tensor option \<Rightarrow> bool \<Rightarrow> string option \<Rightarrow>
   int tensor option \<Rightarrow> pyval \<Rightarrow> (real tensor \<Rightarrow> error + pyval) \<Rightarrow> error + head_output" where
  "second_pass head inp labels VAT mode marks perturbation recorded =
     ebind (pass_outputs head inp labels VAT mode marks perturbation) (\<lambda>(loss, logits, hs).
       Inr \<lparr>out_loss = loss, out_logits = logits, out_hidden_states = hs,
            loss_recorded = (\<lambda>x.
              ebind (recorded x) (\<lambda>p.
              ebind (pass_outputs head inp labels VAT mode marks p) (\<lambda>(loss, logits, hs).
                the_attr ''backward'' loss)))\<rparr>)"

definition head_forward ::
  "'g token_head \<Rightarrow> 'g autograd \<Rightarrow> (nat list \<Rightarrow> nat list \<Rightarrow> real) \<Rightarrow> model_inputs \<Rightarrow>
   int tensor option \<Rightarrow> bool \<Rightarrow> string option \<Rightarrow> int tensor option \<Rightarrow>
   error + head_output \<times> 'g token_head" where
  "head_forward head ag rand inp labels VAT mode marks =
     ebind (if VAT \<and> mode = Some ''train''
            then ebind (vat_perturbation head ag rand inp labels marks) (\<lambda>v.
                   Inr (PyTensor (vat_perturbation_value v),
                        (\<lambda>x. ebind (vat_recorded v x) (\<lambda>p. Inr (PyTensor p))),
                        vat_head v))
            else Inr (PyNum 0, (\<lambda>x. Inr (PyNum 0)), head)) (\<lambda>(perturbation, recorded, head1).
     ebind (second_pass head1 inp labels VAT mode marks perturbation recorded) (\<lambda>out.
       Inr (out, head1)))"

section \<open>Concrete inputs\<close>

text \<open>
  A linear layer whose weight is the identity matrix of size \<open>n\<close> (it rejects an
  input whose last dimension is not \<open>n\<close>), and a dropout layer in evaluation mode.
\<close>

definition identity_linear :: "nat \<Rightarrow> linear" where
  "identity_linear n t = (if shape t \<noteq> [] \<and> last (shape t) = n then Some t else None)"

text \<open>A library whose constructors accept every non-negative size.\<close>

definition example_library :: torch_library where
  "example_library = \<lparr>lib_base_init = (\<lambda>cfg. Inr ()),
     lib_linear = (\<lambda>n m bias. if n < 0 \<or> m < 0 then Inl (RuntimeError ''negative dimension'')
                                else Inr (identity_linear (nat n))),
     lib_zeros = (\<lambda>n. if n < 0 then Inl (RuntimeError ''negative dimension'') else Inr ()),
     lib_stable_dropout = (\<lambda>p. Inr Some)\<rparr>"

text \<open>A model of two layers that add one to every hidden state, over zero embeddings.\<close>

definition example_layer :: layer where
  "example_layer h am q me marks = Inr (tmap (\<lambda>v. v + 1) h)"

definition example_embeddings :: "model_inputs \<Rightarrow> error + real tensor" where
  "example_embeddings inp = Inr (Tensor [2, 2, 8] (\<lambda>_. 0))"

definition example_encoder :: encoder where
  "example_encoder =
     encoder_init [example_layer, example_layer] (Tensor [8, 8] (\<lambda>_. 1)) (Tensor [2, 8] (\<lambda>_. 1))
       (base_config\<lparr>cfg_pivot_phrase_embeddings := Some True\<rparr>)"

definition example_inputs :: model_inputs where
  "example_inputs = \<lparr>input_ids = Some (Tensor [2, 2] (\<lambda>_. 0)), attention_mask = None,
     token_type_ids = None, position_ids = None, inputs_embeds = None\<rparr>"

definition example_model :: deberta_model where
  "example_model = custom_deberta_model_init example_embeddings example_encoder base_config"

text \<open>Logits for one sentence of two tokens, the second one padding.\<close>

definition example_logits :: "real tensor" where
  "example_logits = Tensor [1, 2, 2] (\<lambda>idx. real (idx ! 2))"

definition example_logits_padding :: "real tensor" where
  "example_logits_padding = Tensor [1, 2, 2] (\<lambda>idx. if idx ! 1 = 1 then 100 else real (idx ! 2))"

definition example_mask :: "int tensor" where
  "example_mask = Tensor [1, 2] (\<lambda>idx. if idx ! 1 = 0 then 1 else 0)"

definition example_labels :: "int tensor" where
  "example_labels = Tensor [1, 2] (\<lambda>idx. 1)"

text \<open>
  Adversarial training of one sentence of one token with two features and two
  labels: the example model over zero embeddings, the classifier the identity, the
  token labelled as the beginning of an aspect.  The logits are the sample plus 2,
  so the loss of the first pass is the negative log-softmax of the second logit,
  and the example engine returns its gradient: the softmax minus the indicator of
  the label.
\<close>

definition vat_config :: config where
  "vat_config = base_config\<lparr>hidden_size := 2, gamma := Some 1, lr_adv := Some 10\<rparr>"

definition vat_embeddings :: "model_inputs \<Rightarrow> error + real tensor" where
  "vat_embeddings inp = Inr (Tensor [1, 1, 2] (\<lambda>_. 0))"

definition vat_inputs :: model_inputs where
  "vat_inputs = \<lparr>input_ids = Some (Tensor [1, 1] (\<lambda>_. 0)), attention_mask = None,
     token_type_ids = None, position_ids = None, inputs_embeds = None\<rparr>"

definition vat_head_example :: "nat token_head" where
  "vat_head_example = \<lparr>head_deberta =
       custom_deberta_model_init vat_embeddings example_encoder vat_config,
     head_dropout = (\<lambda>t. t), classifier = identity_linear 2, mark_enhanced_classifier = None,
     head_num_labels = 2, head_config = vat_config, param_grads = [7]\<rparr>"

definition vat_engine :: "nat autograd" where
  "vat_engine = \<lparr>grad_wrt_sample = (\<lambda>L x. Tensor (shape x)
       (\<lambda>idx. exp (elt x idx) / (exp (elt x [0, 0, 0]) + exp (elt x [0, 0, 1]))
              - (if idx = [0, 0, 1] then 1 else 0))),
     grad_wrt_parameters = (\<lambda>L x. 5)\<rparr>"

definition vat_rand :: "nat list \<Rightarrow> nat list \<Rightarrow> real" where
  "vat_rand s idx = 1 / 2"

definition vat_labels :: "int tensor" where
  "vat_labels = Tensor [1, 1] (\<lambda>idx. 1)"

subsection \<open>A pivot-phrase scenario: batch 2, one head, sequence length 2\<close>









section \<open>Tensors: basic facts\<close>

lemma ebind_simps:
  "ebind (Inl e) f = Inl e" "ebind (Inr v) f = f v"
  by (simp_all add: ebind_def)

lemma ebind_eq_Inr: "ebind m f = Inr r \<longleftrightarrow> (\<exists>v. m = Inr v \<and> f v = Inr r)"
  by (cases m) (simp_all add: ebind_def)

lemma not_isl_ebind: "\<not> isl m \<Longrightarrow> (\<And>v. \<not> isl (f v)) \<Longrightarrow> \<not> isl (ebind m f)"
  by (cases m) (simp_all add: ebind_def)

lemma bidx_same: "list_all2 (<) idx s \<Longrightarrow> bidx s idx = idx"
proof -
  assume a: "list_all2 (<) idx s"
  then have "map2 (\<lambda>d i. if d = 1 then 0 else i) s idx = idx"
    by (induction idx s rule: list_all2_induct) auto
  moreover have "length idx = length s" using a by (rule list_all2_lengthD)
  ultimately show ?thesis by (simp add: bidx_def)
qed

lemma broadcast_shapes_same: "broadcast_shapes s s = Some s"
proof -
  have "map2 (\<lambda>x y. if x = 1 then y else x) s s = s"
    by (induction s) auto
  moreover have "list_all2 (\<lambda>x y. x = y \<or> x = 1 \<or> y = 1) s s"
    by (simp add: list_all2_same)
  ultimately show ?thesis
    by (simp add: broadcast_shapes_def pad_shape_def)
qed

lemma tmul_same_shape:
  "shape x = shape y \<Longrightarrow>
   tmul x y = Inr (Tensor (shape y) (\<lambda>idx. elt x (bidx (shape y) idx) * elt y (bidx (shape y) idx)))"
  by (simp add: tmul_def broadcast_shapes_same)

lemma tadd_same_shape:
  "shape x = shape y \<Longrightarrow>
   tadd x y = Inr (Tensor (shape y) (\<lambda>idx. elt x (bidx (shape y) idx) + elt y (bidx (shape y) idx)))"
  by (simp add: tadd_def broadcast_shapes_same)

section \<open>Configuration: results\<close>

lemma getattr_simps:
  "getattr None d = d" "getattr (Some v) d = v"
  by (simp_all add: getattr_def)

text \<open>
  Claim C7, as amended.  \<open>add_extra_args\<close> fails, with \<open>AssertionError\<close>, exactly
  when one of the content-to-mark / mark-to-content flags (\<open>c2m\<close>, \<open>m2c\<close>) is set
  together with one of the two pivot-phrase attention flags (\<open>c2p_att_pp\<close>,
  \<open>p2c_att_pp\<close>).  The flags \<open>mark_enhanced_classifier\<close> and
  \<open>pivot_phrase_embeddings\<close> take no part in the test.
\<close>

theorem add_extra_args_fails_iff:
  "add_extra_args hp cfg = Inl AssertionError \<longleftrightarrow>
     ((getattr (hp_c2m hp) False \<or> getattr (hp_m2c hp) False)
      \<and> (getattr (hp_c2p_att_pp hp) False \<or> getattr (hp_p2c_att_pp hp) False))"
  by (simp add: add_extra_args_def Let_def getattr_simps)

text \<open>
  Claim C7, as stated, fails: with the mark-enhanced classifier and the \<open>c2m\<close>
  term both enabled (and with the pivot-phrase embeddings and \<open>m2c\<close> both
  enabled) the configuration is accepted.
\<close>

theorem mark_enhanced_with_c2m_accepted:
  "\<not> isl (add_extra_args
       (no_hparams\<lparr>hp_mark_enhanced_classifier := Some True, hp_c2m := Some True\<rparr>)
       base_config)
   \<and> \<not> isl (add_extra_args
       (no_hparams\<lparr>hp_pivot_phrase_embeddings := Some True, hp_m2c := Some True\<rparr>)
       base_config)"
  by (simp add: add_extra_args_def Let_def getattr_simps no_hparams_def)

section \<open>Construction of the self-attention module: results\<close>

lemma hidden_size_check_Inr:
  "hidden_size_check cfg = Inr u \<longleftrightarrow>
     num_attention_heads cfg \<noteq> 0 \<and> hidden_size cfg mod num_attention_heads cfg = 0"
  by (simp add: hidden_size_check_def)

lemma round_half_even_of_int: "round_half_even (of_int z) = z"
  by (simp add: round_half_even_def)

lemma int_trunc_of_int: "int_trunc (of_int z) = z"
  by (simp add: int_trunc_def)

text \<open>An integer below \<open>2 ^ 53\<close> in absolute value is a double.\<close>

lemma float64_of_int:
  assumes "\<bar>n\<bar> < 2 ^ 53"
  shows "float64 (of_int n) = of_int n"
proof (cases "n = 0")
  case True
  then show ?thesis by (simp add: float64_def)
next
  case False
  let ?k = "\<lfloor>log 2 \<bar>real_of_int n\<bar>\<rfloor>"
  have pos: "1 \<le> \<bar>real_of_int n\<bar>" using False by (simp flip: of_int_abs)
  have "real_of_int \<bar>n\<bar> < real_of_int (2 ^ 53)" using assms by (simp only: of_int_less_iff)
  then have "\<bar>real_of_int n\<bar> < 2 ^ 53" by simp
  then have "log 2 \<bar>real_of_int n\<bar> < 53"
    using pos by (subst log_less_iff) (simp_all add: powr_numeral)
  then have k52: "?k \<le> 52" by (simp add: floor_le_iff)
  define j where "j = nat (52 - ?k)"
  have e: "?k - 52 = - int j" using k52 by (simp add: j_def)
  have p: "2 powr (- real j) = 1 / 2 ^ j"
    by (simp add: powr_minus powr_realpow divide_inverse)
  have q: "real_of_int n * 2 ^ j = of_int (n * 2 ^ j)"
    by simp
  have r: "real_of_int (n * 2 ^ j) / 2 ^ j = real_of_int n"
    by simp
  show ?thesis
    using False
    by (simp add: float64_def Let_def e p q r round_half_even_of_int del: of_int_mult of_int_power)
qed

lemma int_of_true_division_exact:
  assumes "b \<noteq> 0" "b dvd a" "\<bar>a div b\<bar> < 2 ^ 53"
  shows "int_of_true_division a b = Inr (a div b)"
proof -
  have "real_of_int a / real_of_int b = real_of_int (a div b)"
    using assms(1,2) by (simp add: real_of_int_div)
  moreover have "\<bar>real_of_int (a div b)\<bar> < 2 ^ 1024"
  proof -
    have "real_of_int \<bar>a div b\<bar> < real_of_int (2 ^ 53)"
      using assms(3) by (simp only: of_int_less_iff)
    also have "\<dots> \<le> 2 ^ 1024" by simp
    finally show ?thesis by simp
  qed
  ultimately show ?thesis
    using assms(1)
    by (simp add: int_of_true_division_def Let_def float64_of_int [OF assms(3)] int_trunc_of_int
        del: of_int_abs)
qed

text \<open>
  Claim C9.  For every configuration and whatever the library's constructors do:
  when \<open>hidden_size % num_attention_heads\<close> is not zero (or the head count is
  zero, for which \<open>%\<close> itself raises), construction of the self-attention module
  raises; when the base constructor has returned and the head count is not zero,
  what it raises is the \<open>ValueError\<close> of line 161.  Otherwise the test raises
  nothing and construction goes on with line 165: the constructor is the base
  constructor followed by the statements after the test.
\<close>

theorem hidden_size_divisible_or_construction_fails:
  "(num_attention_heads cfg = 0 \<or> hidden_size cfg mod num_attention_heads cfg \<noteq> 0
      \<longrightarrow> isl (self_attention_init lib cfg)
        \<and> (lib_base_init lib cfg = Inr () \<and> num_attention_heads cfg \<noteq> 0
             \<longrightarrow> self_attention_init lib cfg
                  = Inl (ValueError ''The hidden size is not a multiple of the number of attention heads'')))
   \<and> (num_attention_heads cfg \<noteq> 0 \<and> hidden_size cfg mod num_attention_heads cfg = 0
      \<longrightarrow> hidden_size_check cfg = Inr ()
        \<and> self_attention_init lib cfg
            = ebind (lib_base_init lib cfg) (\<lambda>_. self_attention_build lib cfg))"
  by (cases "lib_base_init lib cfg")
     (auto simp: self_attention_init_def hidden_size_check_def ebind_simps)

lemma example_self_attention_build:
  "\<not> isl (self_attention_build example_library base_config)"
proof -
  have d: "int_of_true_division 8 2 = Inr 4"
    using int_of_true_division_exact [of 2 8] by simp
  show ?thesis
    by (simp add: self_attention_build_def base_config_def example_library_def d optionally_def
        getattr_simps ebind_simps Let_def)
qed

theorem hidden_size_divisible_or_construction_fails_witness:
  "\<not> isl (self_attention_init example_library base_config)
   \<and> self_attention_init example_library (base_config\<lparr>hidden_size := 9\<rparr>)
       = Inl (ValueError ''The hidden size is not a multiple of the number of attention heads'')
   \<and> isl (self_attention_init example_library (base_config\<lparr>num_attention_heads := 0\<rparr>))"
proof -
  have b: "lib_base_init example_library c = Inr ()" for c
    by (simp add: example_library_def)
  have "self_attention_init example_library base_config
          = ebind (lib_base_init example_library base_config)
              (\<lambda>_. self_attention_build example_library base_config)"
    using hidden_size_divisible_or_construction_fails [of base_config example_library]
    by (simp add: base_config_def)
  then have "\<not> isl (self_attention_init example_library base_config)"
    using example_self_attention_build by (simp add: b ebind_simps)
  moreover have "self_attention_init example_library (base_config\<lparr>hidden_size := 9\<rparr>)
       = Inl (ValueError ''The hidden size is not a multiple of the number of attention heads'')"
    using hidden_size_divisible_or_construction_fails [of "base_config\<lparr>hidden_size := 9\<rparr>" example_library]
    by (simp add: base_config_def b)
  moreover have "isl (self_attention_init example_library (base_config\<lparr>num_attention_heads := 0\<rparr>))"
    using hidden_size_divisible_or_construction_fails
      [of "base_config\<lparr>num_attention_heads := 0\<rparr>" example_library]
    by (simp add: base_config_def)
  ultimately show ?thesis by simp
qed

text \<open>
  Past the test the quotient is computed in floating point, so for a hidden size
  beyond \<open>2 ^ 53\<close> the head size need not be the exact quotient, although the test
  has passed.
\<close>

lemma head_size_not_exact:
  "27021597764222979 mod (3::int) = 0
   \<and> int_of_true_division 27021597764222979 3 = Inr 9007199254740992
   \<and> 3 * 9007199254740992 \<noteq> (27021597764222979::int)"
proof -
  have l: "\<lfloor>log 2 9007199254740993\<rfloor> = (53::int)"
    by (subst floor_log_eq_powr_iff) simp_all
  have "float64 (27021597764222979 / 3) = 9007199254740992"
    by (simp add: float64_def l round_half_even_def powr_numeral)
  then show ?thesis
    by (simp add: int_of_true_division_def int_trunc_def)
qed
section \<open>The model: results\<close>

lemma ebind_cong_Inr: "(\<And>v. m = Inr v \<Longrightarrow> f v = g v) \<Longrightarrow> ebind m f = ebind m g"
  by (cases m) (simp_all add: ebind_def)

lemma ebind_assoc: "ebind (ebind m f) g = ebind m (\<lambda>v. ebind (f v) g)"
  by (cases m) (simp_all add: ebind_def)

lemma run_layers_snoc:
  "run_layers (ls @ [l]) am me marks h acc =
     ebind (run_layers ls am me marks h acc) (\<lambda>(h', acc').
     ebind (the_local ''mark_embeddings'' me) (\<lambda>m.
     ebind (l h' am None (Some m) marks) (\<lambda>h''. Inr (h'', acc' @ [h']))))"
proof (induction ls arbitrary: h acc)
  case Nil
  show ?case by (simp add: ebind_simps)
next
  case (Cons l0 ls)
  show ?case
    by (simp add: ebind_assoc Cons.IH)
qed

lemma encoder_forward_last:
  "encoder_forward enc e am marks = Inr eo \<Longrightarrow>
     \<lparr>last_hidden_state = last (hidden_states eo), hidden_states = hidden_states eo\<rparr> = eo"
  by (auto simp: encoder_forward_def ebind_eq_Inr)

text \<open>
  Claim C10.  A model built by \<open>CustomDebertaModel.__init__\<close> has \<open>z_steps = 0\<close>;
  \<open>forward\<close> assigns no attribute, so the value stays.  For every call, with
  every input, \<open>forward\<close> of such a model is the embedding stage followed by the
  encoder and nothing else: the branch under \<open>if self.z_steps > 1\<close> contributes
  nothing, whether the call returns or raises.  Consequently, when the call returns
  and the encoder's layers are \<open>ls\<close> followed by a final layer \<open>l\<close>, the last
  hidden state is what \<open>l\<close> returned for the output of \<open>ls\<close> on the embedding
  output, and it is the last of the returned hidden states.
\<close>

theorem z_steps_zero_no_refinement:
  "z_steps (custom_deberta_model_init emb enc cfg) = 0
   \<and> custom_deberta_forward (custom_deberta_model_init emb enc cfg) inp VAT p mode marks
       = ebind (embedding_stage (custom_deberta_model_init emb enc cfg) inp VAT p mode)
           (\<lambda>(e, am). encoder_forward enc e am marks)
   \<and> (custom_deberta_forward (custom_deberta_model_init emb enc cfg) inp VAT p mode marks = Inr out
        \<and> enc_layer enc = ls @ [l]
      \<longrightarrow> (\<exists>e am m h acc.
             embedding_stage (custom_deberta_model_init emb enc cfg) inp VAT p mode = Inr (e, am)
           \<and> encoder_mark_embeddings enc marks = Inr (Some m)
           \<and> run_layers ls am (Some m) marks e [] = Inr (h, acc)
           \<and> l h am None (Some m) marks = Inr (last_hidden_state out)
           \<and> hidden_states out = acc @ [h, last_hidden_state out]))"
proof (intro conjI impI)
  let ?m = "custom_deberta_model_init emb enc cfg"
  show z: "z_steps ?m = 0"
    by (simp add: custom_deberta_model_init_def)
  have e: "model_encoder ?m = enc"
    by (simp add: custom_deberta_model_init_def)
  show fw: "custom_deberta_forward ?m inp VAT p mode marks
       = ebind (embedding_stage ?m inp VAT p mode) (\<lambda>(e, am). encoder_forward enc e am marks)"
    unfolding custom_deberta_forward_def z e Let_def
  proof (rule ebind_cong_Inr)
    fix v
    show "(case v of (embedding_output, am) \<Rightarrow>
             ebind (encoder_forward enc embedding_output am marks) (\<lambda>encoder_outputs.
             ebind (if (0::int) > 1 then refinement_steps ?m (hidden_states encoder_outputs) am
                    else Inr (hidden_states encoder_outputs)) (\<lambda>encoded_layers.
               Inr \<lparr>last_hidden_state = last encoded_layers,
                    hidden_states = hidden_states encoder_outputs\<rparr>)))
          = (case v of (e, am) \<Rightarrow> encoder_forward enc e am marks)"
    proof (cases v)
      case (Pair e0 am0)
      show ?thesis
        by (cases "encoder_forward enc e0 am0 marks")
           (simp_all add: Pair ebind_simps encoder_forward_last)
    qed
  qed
  assume a: "custom_deberta_forward ?m inp VAT p mode marks = Inr out \<and> enc_layer enc = ls @ [l]"
  then obtain e0 am0 where st: "embedding_stage ?m inp VAT p mode = Inr (e0, am0)"
    and eo: "encoder_forward enc e0 am0 marks = Inr out"
    unfolding fw by (auto simp: ebind_eq_Inr)
  from eo a obtain me h' acc' where me: "encoder_mark_embeddings enc marks = Inr me"
    and rl: "run_layers (ls @ [l]) am0 me marks e0 [] = Inr (h', acc')"
    and out: "out = \<lparr>last_hidden_state = h', hidden_states = acc' @ [h']\<rparr>"
    unfolding encoder_forward_def by (auto simp: ebind_eq_Inr)
  from rl obtain h acc m where r1: "run_layers ls am0 me marks e0 [] = Inr (h, acc)"
    and m: "me = Some m" and l: "l h am0 None (Some m) marks = Inr h'" and acc': "acc' = acc @ [h]"
    unfolding run_layers_snoc
    by (auto simp: ebind_eq_Inr the_local_def split: option.splits)
  from st me r1 l out m acc'
  show "\<exists>e am m h acc.
             embedding_stage ?m inp VAT p mode = Inr (e, am)
           \<and> encoder_mark_embeddings enc marks = Inr (Some m)
           \<and> run_layers ls am (Some m) marks e [] = Inr (h, acc)
           \<and> l h am None (Some m) marks = Inr (last_hidden_state out)
           \<and> hidden_states out = acc @ [h, last_hidden_state out]"
    by (intro exI [of _ e0] exI [of _ am0] exI [of _ m] exI [of _ h] exI [of _ acc]) simp
qed

lemma example_embedding_stage:
  "embedding_stage example_model example_inputs False (PyNum 0) None
     = Inr (Tensor [2, 2, 8] (\<lambda>_. 0), Tensor [2, 2] (\<lambda>_. 1))"
  by (simp add: embedding_stage_def example_model_def custom_deberta_model_init_def
      example_embeddings_def example_inputs_def ebind_simps)

lemma example_encoder_forward:
  "encoder_forward example_encoder (Tensor [2, 2, 8] (\<lambda>_. 0)) am None
     = Inr \<lparr>last_hidden_state = Tensor [2, 2, 8] (\<lambda>_. 2),
            hidden_states = [Tensor [2, 2, 8] (\<lambda>_. 0), Tensor [2, 2, 8] (\<lambda>_. 1),
                             Tensor [2, 2, 8] (\<lambda>_. 2)]\<rparr>"
  by (simp add: example_encoder_def encoder_init_def encoder_forward_def
      encoder_mark_embeddings_def example_layer_def base_config_def getattr_simps
      ebind_simps the_local_def tmap_def)

lemma example_enc_layer: "enc_layer example_encoder = [example_layer, example_layer]"
  by (simp add: example_encoder_def encoder_init_def Let_def)

theorem z_steps_zero_no_refinement_witness:
  "custom_deberta_forward example_model example_inputs False (PyNum 0) None None
     = Inr \<lparr>last_hidden_state = Tensor [2, 2, 8] (\<lambda>_. 2),
            hidden_states = [Tensor [2, 2, 8] (\<lambda>_. 0), Tensor [2, 2, 8] (\<lambda>_. 1),
                             Tensor [2, 2, 8] (\<lambda>_. 2)]\<rparr>
   \<and> enc_layer example_encoder = [example_layer] @ [example_layer]
   \<and> example_layer (Tensor [2, 2, 8] (\<lambda>_. 1)) (Tensor [2, 2] (\<lambda>_. 1)) None
        (Some (Tensor [8, 8] (\<lambda>_. 1))) None
      = Inr (Tensor [2, 2, 8] (\<lambda>_. 2))"
proof -
  let ?out = "\<lparr>last_hidden_state = Tensor [2, 2, 8] (\<lambda>_. 2::real),
            hidden_states = [Tensor [2, 2, 8] (\<lambda>_. 0), Tensor [2, 2, 8] (\<lambda>_. 1),
                             Tensor [2, 2, 8] (\<lambda>_. 2)]\<rparr>"
  note c10 = z_steps_zero_no_refinement [of example_embeddings example_encoder base_config
      example_inputs False "PyNum 0" None None ?out "[example_layer]" example_layer,
      folded example_model_def]
  have fw: "custom_deberta_forward example_model example_inputs False (PyNum 0) None None = Inr ?out"
    using c10 by (simp add: example_embedding_stage example_encoder_forward ebind_simps)
  have ls: "enc_layer example_encoder = [example_layer] @ [example_layer]"
    by (simp add: example_enc_layer)
  from c10 fw ls obtain e am m h acc where
    "embedding_stage example_model example_inputs False (PyNum 0) None = Inr (e, am)"
    "encoder_mark_embeddings example_encoder None = Inr (Some m)"
    "run_layers [example_layer] am (Some m) None e [] = Inr (h, acc)"
    and l: "example_layer h am None (Some m) None = Inr (Tensor [2, 2, 8] (\<lambda>_. 2))"
    by auto
  then have "h = Tensor [2, 2, 8] (\<lambda>_. 1)" "am = Tensor [2, 2] (\<lambda>_. 1)" "m = Tensor [8, 8] (\<lambda>_. 1)"
    by (auto simp: example_embedding_stage example_encoder_def encoder_init_def
        encoder_mark_embeddings_def base_config_def getattr_simps example_layer_def
        ebind_simps the_local_def tmap_def)
  with l fw ls show ?thesis by simp
qed

text \<open>
  With \<open>z_steps\<close> above one the refinement cannot complete: the hidden states are a
  tuple, which has no \<open>append\<close>.  Setting \<open>z_steps\<close> from outside therefore changes
  what \<open>forward\<close> does: the call that returns for the constructed model raises.
\<close>

lemma refinement_steps_raise: "isl (refinement_steps m encoded_layers am)"
  by (simp add: refinement_steps_def ebind_def split: sum.splits)

lemma z_steps_raised_from_outside:
  "custom_deberta_forward (example_model\<lparr>z_steps := 5\<rparr>) example_inputs False (PyNum 0) None None
     = Inl (AttributeError ''append'')"
  by (simp add: custom_deberta_forward_def embedding_stage_def example_model_def
      custom_deberta_model_init_def example_embeddings_def example_inputs_def
      example_encoder_forward refinement_steps_def example_enc_layer
      example_layer_def ebind_simps Let_def)
section \<open>The loss of the head: results\<close>

lemma ce_cong:
  assumes "list_all2 (\<lambda>(x, x') t. length x = length x' \<and> (t \<noteq> ignore_index \<longrightarrow> x = x')) (zip rows rows') ts"
    and "length rows = length rows'"
  shows "cross_entropy_loss rows ts = cross_entropy_loss rows' ts"
proof -
  have len: "length rows = length ts"
    using assms by (auto dest: list_all2_lengthD)
  have "list_all (\<lambda>(x, t). t = ignore_index \<or> (0 \<le> t \<and> t < int (length x))) (zip rows ts)
        = list_all (\<lambda>(x, t). t = ignore_index \<or> (0 \<le> t \<and> t < int (length x))) (zip rows' ts)
      \<and> filter (\<lambda>(x, t). t \<noteq> ignore_index) (zip rows ts)
        = filter (\<lambda>(x, t). t \<noteq> ignore_index) (zip rows' ts)"
    using assms(2) len [unfolded assms(2)] assms(1)
  proof (induction rows rows' ts rule: list_induct3)
    case Nil
    then show ?case by simp
  next
    case (Cons x xs y ys z zs)
    then show ?case by auto
  qed
  with assms(2) len show ?thesis
    by (simp add: cross_entropy_loss_def)
qed


lemma nth_chunks:
  "i < n \<Longrightarrow> chunks n c xs ! i = take c (drop (i * c) xs)"
proof (induction n arbitrary: i xs)
  case 0
  then show ?case by simp
next
  case (Suc n)
  show ?case
  proof (cases i)
    case 0
    then show ?thesis by simp
  next
    case (Suc j)
    with Suc.prems have "j < n" by simp
    from Suc.IH [OF this, of "drop c xs"] Suc show ?thesis
      by (simp add: add.commute)
  qed
qed

lemma length_chunks: "length (chunks n c xs) = n"
  by (induction n arbitrary: xs) simp_all

lemma where_labels_ignored:
  assumes "where_labels (map (\<lambda>v. v = 1) (flatten am)) labels ignore_index = Inr al"
    and "i < length al" and "al ! i \<noteq> ignore_index"
  shows "mask_seen am i = 1"
  using assms
  by (auto simp: where_labels_def mask_seen_def Let_def length_Suc_conv split: if_splits)


lemma chunk_row:
  assumes i: "i < n" and n: "length xs = n * c"
  shows "length (chunks n c xs ! i) = c"
    and "k < c \<Longrightarrow> chunks n c xs ! i ! k = xs ! (i * c + k)"
proof -
  have "(i + 1) * c \<le> n * c"
    using i by (intro mult_le_mono1) simp
  then have le: "i * c + c \<le> length xs" using n by simp
  then have c: "c \<le> length xs - i * c" by linarith
  show "length (chunks n c xs ! i) = c"
    using c by (simp add: nth_chunks [OF i] min_absorb2)
  show "chunks n c xs ! i ! k = xs ! (i * c + k)" if "k < c"
    using that le by (simp add: nth_chunks [OF i])
qed

lemma rows_agree:
  assumes n: "length xs = n * c" and n': "length xs' = n * c"
    and eq: "\<forall>k<c. xs' ! (i * c + k) = xs ! (i * c + k)" and i: "i < n"
  shows "chunks n c xs' ! i = chunks n c xs ! i"
  by (rule nth_equalityI) (simp_all add: chunk_row [OF i n] chunk_row [OF i n'] eq)

lemma where_labels_padding:
  assumes "where_labels (map (\<lambda>v. v = 1) (flatten am)) labels ignore_index = Inr al"
    and "i < length al" and "mask_seen am i \<noteq> 1"
  shows "al ! i = ignore_index"
  using assms where_labels_ignored by blast

text \<open>
  Claim C4.  With labels and an attention mask supplied, the loss of the head does
  not depend on the logits at the positions whose mask differs from one (the
  padding positions, mask zero, among them): two logit tensors that agree at the
  positions with mask one give the same loss, or the same error.  The label of
  every other position is replaced by the ignore index (lemma
  \<open>where_labels_padding\<close>).
\<close>

theorem padding_positions_do_not_contribute:
  assumes sh: "shape logits' = shape logits"
    and eq: "\<forall>i c. i < length (flatten logits) div nat num_labels \<longrightarrow> c < nat num_labels \<longrightarrow>
               mask_seen am i = 1 \<longrightarrow>
               flatten logits' ! (i * nat num_labels + c) = flatten logits ! (i * nat num_labels + c)"
  shows "token_classification_loss num_labels logits' (Some am) labels
         = token_classification_loss num_labels logits (Some am) labels"
proof -
  let ?xs = "flatten logits" and ?xs' = "flatten logits'" and ?c = "nat num_labels"
  let ?n = "length ?xs div ?c"
  have len: "length ?xs' = length ?xs"
    using sh by (simp add: flatten_def)
  show ?thesis
  proof (cases "num_labels \<le> 0 \<or> int (length ?xs) mod num_labels \<noteq> 0")
    case True
    then show ?thesis
      by (simp add: token_classification_loss_def view_rows_def len Let_def ebind_simps)
  next
    case False
    then have "int (length ?xs) mod int ?c = 0" by simp
    then have "length ?xs mod ?c = 0"
      by (metis of_nat_mod of_nat_eq_0_iff)
    then have n: "length ?xs = ?n * ?c" by auto
    have n': "length ?xs' = ?n * ?c" using n len by simp
    have rows: "view_rows logits num_labels = Inr (chunks ?n ?c ?xs)"
      "view_rows logits' num_labels = Inr (chunks ?n ?c ?xs')"
      using False by (simp_all add: view_rows_def len Let_def)
    show ?thesis
    proof (cases "where_labels (map (\<lambda>v. v = 1) (flatten am)) (flatten labels) ignore_index")
      case (Inl e)
      then show ?thesis
        by (simp add: token_classification_loss_def rows Let_def ebind_simps)
    next
      case (Inr al)
      have "cross_entropy_loss (chunks ?n ?c ?xs') al = cross_entropy_loss (chunks ?n ?c ?xs) al"
      proof (cases "length al = ?n")
        case True
        have "list_all2 (\<lambda>(x, x') t. length x = length x' \<and> (t \<noteq> ignore_index \<longrightarrow> x = x'))
                (zip (chunks ?n ?c ?xs') (chunks ?n ?c ?xs)) al"
        proof (rule list_all2_all_nthI)
          show "length (zip (chunks ?n ?c ?xs') (chunks ?n ?c ?xs)) = length al"
            using True by (simp add: length_chunks)
        next
          fix i assume "i < length (zip (chunks ?n ?c ?xs') (chunks ?n ?c ?xs))"
          then have i: "i < ?n" by (simp add: length_chunks)
          have "chunks ?n ?c ?xs' ! i = chunks ?n ?c ?xs ! i" if "al ! i \<noteq> ignore_index"
          proof -
            from where_labels_ignored [OF Inr _ that] i True have "mask_seen am i = 1" by simp
            with eq i have "\<forall>k<?c. ?xs' ! (i * ?c + k) = ?xs ! (i * ?c + k)" by simp
            from rows_agree [OF n n' this i] show ?thesis .
          qed
          then show "(case zip (chunks ?n ?c ?xs') (chunks ?n ?c ?xs) ! i of
                        (x, x') \<Rightarrow> \<lambda>t. length x = length x' \<and> (t \<noteq> ignore_index \<longrightarrow> x = x')) (al ! i)"
            using i by (simp add: length_chunks chunk_row(1) [OF i n] chunk_row(1) [OF i n'])
        qed
        then show ?thesis
          by (rule ce_cong) (simp add: length_chunks)
      next
        case False
        then show ?thesis
          by (simp add: cross_entropy_loss_def length_chunks)
      qed
      then show ?thesis
        by (simp add: token_classification_loss_def rows Inr Let_def ebind_simps)
    qed
  qed
qed


lemmas example_loss_defs = example_logits_def example_logits_padding_def example_mask_def
  example_labels_def

theorem padding_positions_do_not_contribute_witness:
  "elt example_logits_padding [0, 1, 0] \<noteq> elt example_logits [0, 1, 0]
   \<and> token_classification_loss 2 example_logits_padding (Some example_mask) example_labels
     = token_classification_loss 2 example_logits (Some example_mask) example_labels
   \<and> token_classification_loss 2 example_logits (Some example_mask) example_labels
     = Inr (ln (1 + exp 1) - 1)"
proof -
  have "token_classification_loss 2 example_logits_padding (Some example_mask) example_labels
     = token_classification_loss 2 example_logits (Some example_mask) example_labels"
  proof (rule padding_positions_do_not_contribute)
    show "shape example_logits_padding = shape example_logits"
      by (simp add: example_loss_defs)
    have flat: "flatten example_logits = [0, 1, 0, 1]"
      "flatten example_logits_padding = [0, 1, 100, 100]"
      "flatten example_mask = [1, 0]"
      by (simp_all add: example_loss_defs flatten_def upt_rec)
    show "\<forall>i c. i < length (flatten example_logits) div nat 2 \<longrightarrow> c < nat 2 \<longrightarrow>
            mask_seen example_mask i = 1 \<longrightarrow>
            flatten example_logits_padding ! (i * nat 2 + c) = flatten example_logits ! (i * nat 2 + c)"
      by (auto simp: flat mask_seen_def less_2_cases_iff less_Suc_eq)
  qed
  moreover have "token_classification_loss 2 example_logits (Some example_mask) example_labels
     = Inr (ln (1 + exp 1) - 1)"
  proof -
    have flat: "flatten example_logits = [0, 1, 0, 1]" "flatten example_mask = [1, 0]"
      "flatten example_labels = [1, 1]"
      by (simp_all add: example_loss_defs flatten_def upt_rec)
    have ch: "chunks 2 2 [0, 1, 0, 1 :: real] = [[0, 1], [0, 1]]"
      by (simp add: numeral_2_eq_2)
    show ?thesis
      by (simp add: token_classification_loss_def view_rows_def flat ch where_labels_def
          cross_entropy_loss_def nll_def ignore_index_def ebind_simps Let_def)
  qed
  ultimately show ?thesis by (simp add: example_loss_defs)
qed

section \<open>Virtual adversarial training: results\<close>

lemma aspect_idx_mask_Inr:
  "aspect_idx_mask labels hidden = Inr am \<Longrightarrow>
     shape am = shape labels @ [nat hidden] \<and> rank labels = 2
     \<and> (\<forall>idx. elt am idx = (if elt labels (butlast idx) = 1 \<or> elt labels (butlast idx) = 2 then 1 else 0))"
  by (auto simp: aspect_idx_mask_def split: if_splits)

lemma vat_perturbation_Inr:
  assumes run: "vat_perturbation head ag rand inp (Some labels) marks = Inr v"
    and gshape: "shape (grad_wrt_sample ag (first_pass_loss head inp labels marks) (vat_sample v))
                   = shape (vat_sample v)"
  obtains am lr where
    "aspect_idx_mask labels (hidden_size (head_config head)) = Inr am"
    "tmul (Tensor (shape am) (rand (shape am))) am = Inr (vat_sample v)"
    "lr_adv (head_config head) = Some lr"
    "vat_sample_grad v
       = Some (grad_wrt_sample ag (first_pass_loss head inp labels marks) (vat_sample v))"
    "shape (vat_perturbation_value v) = shape labels @ [nat (hidden_size (head_config head))]"
    "shape am = shape (vat_perturbation_value v)"
    "shape (vat_sample v) = shape (vat_perturbation_value v)"
    "\<And>idx. elt am idx = (if elt labels (butlast idx) = 1 \<or> elt labels (butlast idx) = 2 then 1 else 0)"
    "\<And>idx. in_shape (shape (vat_perturbation_value v)) idx \<Longrightarrow>
         elt (vat_sample v) idx = rand (shape am) idx * elt am idx"
    "\<And>idx. in_shape (shape (vat_perturbation_value v)) idx \<Longrightarrow>
         elt (vat_perturbation_value v) idx =
           elt am idx * (elt (vat_sample v) idx
             + lr * elt (grad_wrt_sample ag (first_pass_loss head inp labels marks) (vat_sample v)) idx)"
    "vat_recorded v = (\<lambda>x. Inr (vat_perturbation_value v))"
    "vat_head v = zero_grad (snd (backward ag (first_pass_loss head inp labels marks) (vat_sample v) head))"
proof -
  let ?L = "first_pass_loss head inp labels marks"
  from run obtain am rm loss lr pert where
    am: "aspect_idx_mask labels (hidden_size (head_config head)) = Inr am"
    and rm: "tmul (Tensor (shape am) (rand (shape am))) am = Inr rm"
    and lr: "lr_adv (head_config head) = Some lr"
    and np: "new_perturbation am lr (grad_wrt_sample ag ?L rm) rm = Inr pert"
    and v: "v = \<lparr>vat_perturbation_value = pert,
                 vat_recorded = (\<lambda>x. new_perturbation am lr (grad_wrt_sample ag ?L rm) rm),
                 vat_sample = rm,
                 vat_sample_grad = Some (grad_wrt_sample ag ?L rm),
                 vat_head = zero_grad (snd (backward ag ?L rm head))\<rparr>"
    unfolding vat_perturbation_def Let_def backward_def no_grad_def
    by (auto simp: ebind_eq_Inr the_attr_def split: option.splits)
  from np obtain moved where
    moved: "tadd rm (tmap (\<lambda>v. lr * v) (grad_wrt_sample ag ?L rm)) = Inr moved"
    and pert: "tmul am moved = Inr pert"
    unfolding new_perturbation_def by (auto simp: ebind_eq_Inr)
  note amf = aspect_idx_mask_Inr [OF am]
  have rm_eq: "rm = Tensor (shape am) (\<lambda>idx. rand (shape am) (bidx (shape am) idx) * elt am (bidx (shape am) idx))"
    using rm by (simp add: tmul_same_shape)
  then have srm: "shape rm = shape am" by simp
  from gshape v srm have gs: "shape (grad_wrt_sample ag ?L rm) = shape am" by simp
  have moved_eq: "moved = Tensor (shape am) (\<lambda>idx. elt rm (bidx (shape am) idx)
                    + lr * elt (grad_wrt_sample ag ?L rm) (bidx (shape am) idx))"
    using moved gs srm by (simp add: tadd_same_shape tmap_def)
  have pert_eq: "pert = Tensor (shape am) (\<lambda>idx. elt am (bidx (shape am) idx) * elt moved (bidx (shape am) idx))"
    using pert moved_eq by (simp add: tmul_same_shape)
  have b: "bidx (shape am) idx = idx" if "in_shape (shape pert) idx" for idx
    using that pert_eq by (simp add: in_shape_def bidx_same)
  have e_pert: "elt pert idx = elt am idx * (elt rm idx + lr * elt (grad_wrt_sample ag ?L rm) idx)"
    if "in_shape (shape pert) idx" for idx
    using b [OF that] by (simp add: pert_eq moved_eq)
  have e_rm: "elt rm idx = rand (shape am) idx * elt am idx" if "in_shape (shape pert) idx" for idx
    using b [OF that] by (simp add: rm_eq)
  have sp: "shape pert = shape labels @ [nat (hidden_size (head_config head))]"
    using amf by (simp add: pert_eq)
  have sa: "shape am = shape pert" by (simp add: pert_eq)
  have e_am: "elt am idx = (if elt labels (butlast idx) = 1 \<or> elt labels (butlast idx) = 2 then 1 else 0)" for idx
    using amf by blast
  show ?thesis
    by (rule that [of am lr]) (use am rm lr sp sa srm e_am e_rm e_pert np in \<open>simp_all add: v\<close>)
qed

lemma first_pass_loss_is_pass_loss:
  "first_pass_loss head inp labels marks x =
     ebind (custom_deberta_forward (head_deberta head) inp True (PyTensor x) (Some ''train'') marks)
       (\<lambda>outputs.
     ebind (apply_classifier ''classifier'' (classifier head)
              (head_dropout head (last_hidden_state outputs))) (\<lambda>logits.
       token_classification_loss (head_num_labels head) logits (attention_mask inp) labels))"
  by (simp add: first_pass_loss_def)

text \<open>
  Claim C5.  In training mode with adversarial training and labels, whenever the
  first pass completes and the gradient that \<open>loss.backward()\<close> stored on the
  masked sample is the gradient of the first-pass loss there (the loss of the
  classifier's logits for the embeddings moved by the sample), the perturbation
  handed to the second pass is, at every index \<open>(batch, token, feature)\<close>, the
  aspect mask (one where the label is 1 or 2, zero elsewhere, the same for every
  feature) times the sum of the masked sample and \<open>lr_adv\<close> times that gradient;
  it is computed under \<open>no_grad\<close>, so what is recorded for it is a constant; and
  the result of \<open>forward\<close> is the second pass run with it.
\<close>

theorem vat_perturbation_formula:
  assumes run: "vat_perturbation head ag rand inp (Some labels) marks = Inr v"
    and engine: "is_gradient (first_pass_loss head inp labels marks) (vat_sample v)
                   (grad_wrt_sample ag (first_pass_loss head inp labels marks) (vat_sample v))"
  shows "\<exists>am lr g.
           aspect_idx_mask labels (hidden_size (head_config head)) = Inr am
         \<and> lr_adv (head_config head) = Some lr
         \<and> vat_sample_grad v = Some g
         \<and> is_gradient
             (\<lambda>x. ebind (custom_deberta_forward (head_deberta head) inp True (PyTensor x)
                            (Some ''train'') marks) (\<lambda>outputs.
                   ebind (apply_classifier ''classifier'' (classifier head)
                            (head_dropout head (last_hidden_state outputs))) (\<lambda>logits.
                     token_classification_loss (head_num_labels head) logits
                       (attention_mask inp) labels)))
             (vat_sample v) g
         \<and> shape (vat_perturbation_value v) = shape labels @ [nat (hidden_size (head_config head))]
         \<and> (\<forall>idx. in_shape (shape (vat_perturbation_value v)) idx \<longrightarrow>
               elt am idx = (if elt labels (butlast idx) = 1 \<or> elt labels (butlast idx) = 2 then 1 else 0)
             \<and> elt (vat_sample v) idx = rand (shape (vat_perturbation_value v)) idx * elt am idx
             \<and> elt (vat_perturbation_value v) idx
                 = elt am idx * (elt (vat_sample v) idx + lr * elt g idx))
         \<and> (\<forall>x. vat_recorded v x = Inr (vat_perturbation_value v))
         \<and> head_forward head ag rand inp (Some labels) True (Some ''train'') marks
             = ebind (second_pass (vat_head v) inp (Some labels) True (Some ''train'') marks
                        (PyTensor (vat_perturbation_value v))
                        (\<lambda>x. Inr (PyTensor (vat_perturbation_value v))))
                 (\<lambda>out. Inr (out, vat_head v))"
proof -
  let ?L = "first_pass_loss head inp labels marks"
  let ?g = "grad_wrt_sample ag ?L (vat_sample v)"
  from engine have gshape: "shape ?g = shape (vat_sample v)"
    by (simp add: is_gradient_def)
  have L: "?L = (\<lambda>x. ebind (custom_deberta_forward (head_deberta head) inp True (PyTensor x)
                            (Some ''train'') marks) (\<lambda>outputs.
                   ebind (apply_classifier ''classifier'' (classifier head)
                            (head_dropout head (last_hidden_state outputs))) (\<lambda>logits.
                     token_classification_loss (head_num_labels head) logits
                       (attention_mask inp) labels)))"
    by (rule ext) (rule first_pass_loss_is_pass_loss)
  from run gshape show ?thesis
  proof (rule vat_perturbation_Inr)
    fix am lr
    assume f: "aspect_idx_mask labels (hidden_size (head_config head)) = Inr am"
      "lr_adv (head_config head) = Some lr"
      "vat_sample_grad v = Some ?g"
      "shape (vat_perturbation_value v) = shape labels @ [nat (hidden_size (head_config head))]"
      "shape am = shape (vat_perturbation_value v)"
      "\<And>idx. elt am idx = (if elt labels (butlast idx) = 1 \<or> elt labels (butlast idx) = 2 then 1 else 0)"
      "\<And>idx. in_shape (shape (vat_perturbation_value v)) idx \<Longrightarrow>
         elt (vat_sample v) idx = rand (shape am) idx * elt am idx"
      "\<And>idx. in_shape (shape (vat_perturbation_value v)) idx \<Longrightarrow>
         elt (vat_perturbation_value v) idx = elt am idx * (elt (vat_sample v) idx + lr * elt ?g idx)"
      and rec: "vat_recorded v = (\<lambda>x. Inr (vat_perturbation_value v))"
    have fw: "head_forward head ag rand inp (Some labels) True (Some ''train'') marks
             = ebind (second_pass (vat_head v) inp (Some labels) True (Some ''train'') marks
                        (PyTensor (vat_perturbation_value v))
                        (\<lambda>x. Inr (PyTensor (vat_perturbation_value v))))
                 (\<lambda>out. Inr (out, vat_head v))"
      by (simp add: head_forward_def run rec ebind_simps)
    from engine have "is_gradient (\<lambda>x. ebind (custom_deberta_forward (head_deberta head) inp True (PyTensor x)
                            (Some ''train'') marks) (\<lambda>outputs.
                   ebind (apply_classifier ''classifier'' (classifier head)
                            (head_dropout head (last_hidden_state outputs))) (\<lambda>logits.
                     token_classification_loss (head_num_labels head) logits
                       (attention_mask inp) labels))) (vat_sample v) ?g"
      by (subst (asm) (1) L) simp
    with f fw rec show ?thesis
      by (intro exI [of _ am] exI [of _ lr] exI [of _ ?g]) simp
  qed
qed


lemmas vat_example_defs = vat_config_def vat_embeddings_def vat_inputs_def vat_head_example_def
  vat_rand_def vat_labels_def example_encoder_def example_layer_def base_config_def
  encoder_init_def custom_deberta_model_init_def identity_linear_def

lemma vat_flatten:
  "flatten (Tensor [Suc 0, Suc 0, 2] f) = map f [[0, 0, 0], [0, 0, 1]]"
  "flatten (Tensor [Suc 0, Suc 0] f) = map f [[0, 0]]"
  by (simp_all add: flatten_def upt_rec numeral_2_eq_2)

lemma vat_chunks: "chunks 1 2 [a0, a1] = [[a0, a1]]"
  by (simp add: eval_nat_numeral)

lemmas vat_eval_defs = custom_deberta_forward_def embedding_stage_def
      add_perturbation_def scale_perturbation_def encoder_forward_def encoder_mark_embeddings_def
      the_attr_def the_local_def iadd_def broadcast_shapes_same tmap_def getattr_simps ebind_simps
      apply_classifier_def token_classification_loss_def view_rows_def vat_flatten vat_chunks
      cross_entropy_loss_def ignore_index_def nll_def bidx_def Let_def

lemma vat_first_pass_loss:
  "first_pass_loss vat_head_example vat_inputs vat_labels None (Tensor [1, 1, 2] f)
     = Inr (ln (exp (2 + f [0, 0, 0]) + exp (2 + f [0, 0, 1])) - (2 + f [0, 0, 1]))"
  by (simp add: first_pass_loss_def vat_example_defs vat_eval_defs)

lemma vat_pass_outputs:
  "pass_outputs (vat_head_example\<lparr>param_grads := gs\<rparr>) vat_inputs (Some vat_labels) True
       (Some ''train'') None (PyTensor (Tensor [1, 1, 2] f))
     = Inr (Some (ln (exp (2 + f [0, 0, 0]) + exp (2 + f [0, 0, 1])) - (2 + f [0, 0, 1])),
            Tensor [1, 1, 2] (\<lambda>idx. 2 + f (bidx [1, 1, 2] idx)),
            [Tensor [1, 1, 2] (\<lambda>idx. f (bidx [1, 1, 2] idx)),
             Tensor [1, 1, 2] (\<lambda>idx. f (bidx [1, 1, 2] idx) + 1),
             Tensor [1, 1, 2] (\<lambda>idx. 2 + f (bidx [1, 1, 2] idx))])"
  by (simp add: pass_outputs_def vat_example_defs vat_eval_defs)

lemma vat_engine_is_gradient:
  "is_gradient (first_pass_loss vat_head_example vat_inputs vat_labels None) (Tensor [1, 1, 2] f)
     (grad_wrt_sample vat_engine L (Tensor [1, 1, 2] f))"
proof -
  have i: "set (indices [Suc 0, Suc 0, 2]) = {[0, 0, 0], [0, 0, Suc 0]}"
    by (simp add: upt_rec numeral_2_eq_2)
  have e: "exp (2 + c) / (exp (2 + a) + exp (2 + b)) = exp c / (exp a + exp b)" for a b c :: real
  proof -
    have "exp (2 + a) + exp (2 + b) = exp 2 * (exp a + exp b)"
      by (simp add: exp_add distrib_left)
    then show ?thesis by (simp add: exp_add)
  qed
  have d0: "((\<lambda>t. ln (exp (2 + (f [0, 0, 0] + t)) + exp (2 + f [0, 0, 1])) - (2 + f [0, 0, 1]))
              has_real_derivative exp (f [0, 0, 0]) / (exp (f [0, 0, 0]) + exp (f [0, 0, 1]))) (at 0)"
    by (auto intro!: derivative_eq_intros simp: e add_pos_pos)
  have d1: "((\<lambda>t. ln (exp (2 + f [0, 0, 0]) + exp (2 + (f [0, 0, 1] + t))) - (2 + (f [0, 0, 1] + t)))
              has_real_derivative exp (f [0, 0, 1]) / (exp (f [0, 0, 0]) + exp (f [0, 0, 1])) - 1) (at 0)"
    by (auto intro!: derivative_eq_intros simp: e add_pos_pos add.commute)
  show ?thesis
    unfolding is_gradient_def
    by (simp add: i bump_def vat_first_pass_loss [unfolded One_nat_def] vat_engine_def
        d0 [unfolded One_nat_def] d1 [unfolded One_nat_def] del: indices.simps)
qed


lemma vat_example_mask:
  "aspect_idx_mask vat_labels (hidden_size (head_config vat_head_example))
     = Inr (Tensor [1, 1, 2] (\<lambda>idx. 1))"
  by (simp add: aspect_idx_mask_def vat_labels_def rank_def vat_head_example_def vat_config_def
      base_config_def)

lemma vat_example_state:
  obtains P G where
    "vat_perturbation vat_head_example vat_engine vat_rand vat_inputs (Some vat_labels) None
       = Inr \<lparr>vat_perturbation_value = P, vat_recorded = (\<lambda>x. Inr P),
              vat_sample = Tensor [1, 1, 2] (\<lambda>idx. 1 / 2), vat_sample_grad = Some G,
              vat_head = vat_head_example\<lparr>param_grads := []\<rparr>\<rparr>"
    "shape P = [1, 1, 2]" "elt G [0, 0, 0] = 1 / 2" "elt G [0, 0, 1] = - 1 / 2"
proof -
  have lr: "lr_adv (head_config vat_head_example) = Some 10"
    by (simp add: vat_head_example_def vat_config_def)
  have "\<exists>P G. vat_perturbation vat_head_example vat_engine vat_rand vat_inputs (Some vat_labels) None
       = Inr \<lparr>vat_perturbation_value = P, vat_recorded = (\<lambda>x. Inr P),
              vat_sample = Tensor [1, 1, 2] (\<lambda>idx. 1 / 2), vat_sample_grad = Some G,
              vat_head = vat_head_example\<lparr>param_grads := []\<rparr>\<rparr>
       \<and> shape P = [1, 1, 2] \<and> elt G [0, 0, 0] = 1 / 2 \<and> elt G [0, 0, 1] = - 1 / 2"
    by (simp add: vat_perturbation_def vat_example_mask tmul_same_shape tadd_same_shape vat_rand_def
        vat_first_pass_loss [unfolded One_nat_def] backward_def zero_grad_def no_grad_def
        new_perturbation_def the_attr_def lr vat_engine_def tmap_def ebind_simps Let_def)
  then show ?thesis using that by blast
qed

theorem vat_perturbation_formula_witness:
  "vat_perturbation vat_head_example vat_engine vat_rand vat_inputs (Some vat_labels) None
     = Inr (projr (vat_perturbation vat_head_example vat_engine vat_rand vat_inputs
                     (Some vat_labels) None))
   \<and> vat_sample (projr (vat_perturbation vat_head_example vat_engine vat_rand vat_inputs
                     (Some vat_labels) None)) = Tensor [1, 1, 2] (\<lambda>idx. 1 / 2)
   \<and> is_gradient (first_pass_loss vat_head_example vat_inputs vat_labels None)
        (Tensor [1, 1, 2] (\<lambda>idx. 1 / 2))
        (the (vat_sample_grad (projr (vat_perturbation vat_head_example vat_engine vat_rand
                vat_inputs (Some vat_labels) None))))
   \<and> elt (the (vat_sample_grad (projr (vat_perturbation vat_head_example vat_engine vat_rand
                vat_inputs (Some vat_labels) None)))) [0, 0, 0] = 1 / 2
   \<and> elt (the (vat_sample_grad (projr (vat_perturbation vat_head_example vat_engine vat_rand
                vat_inputs (Some vat_labels) None)))) [0, 0, 1] = - 1 / 2
   \<and> elt (vat_perturbation_value (projr (vat_perturbation vat_head_example vat_engine vat_rand
                vat_inputs (Some vat_labels) None))) [0, 0, 0] = 11 / 2
   \<and> elt (vat_perturbation_value (projr (vat_perturbation vat_head_example vat_engine vat_rand
                vat_inputs (Some vat_labels) None))) [0, 0, 1] = - 9 / 2
   \<and> vat_recorded (projr (vat_perturbation vat_head_example vat_engine vat_rand
                vat_inputs (Some vat_labels) None)) (Tensor [1, 1, 2] (\<lambda>idx. 0))
       = Inr (vat_perturbation_value (projr (vat_perturbation vat_head_example vat_engine vat_rand
                vat_inputs (Some vat_labels) None)))"
proof -
  let ?L = "first_pass_loss vat_head_example vat_inputs vat_labels None"
  obtain P G where
    run: "vat_perturbation vat_head_example vat_engine vat_rand vat_inputs (Some vat_labels) None
       = Inr \<lparr>vat_perturbation_value = P, vat_recorded = (\<lambda>x. Inr P),
              vat_sample = Tensor [1, 1, 2] (\<lambda>idx. 1 / 2), vat_sample_grad = Some G,
              vat_head = vat_head_example\<lparr>param_grads := []\<rparr>\<rparr>"
    and sP: "shape P = [1, 1, 2]" and G: "elt G [0, 0, 0] = 1 / 2" "elt G [0, 0, 1] = - 1 / 2"
    by (rule vat_example_state)
  let ?v = "\<lparr>vat_perturbation_value = P, vat_recorded = (\<lambda>x. Inr P),
              vat_sample = Tensor [1, 1, 2] (\<lambda>idx. 1 / 2), vat_sample_grad = Some G,
              vat_head = vat_head_example\<lparr>param_grads := []\<rparr>\<rparr>"
  have engine: "is_gradient ?L (vat_sample ?v) (grad_wrt_sample vat_engine ?L (vat_sample ?v))"
    using vat_engine_is_gradient [of "\<lambda>idx. 1 / 2" ?L] by simp
  have i: "in_shape (shape P) [0, 0, 0]" "in_shape (shape P) [0, 0, 1]"
    by (simp_all add: sP in_shape_def)
  from vat_perturbation_formula [OF run engine, folded first_pass_loss_def]
  obtain am lr g where
    am: "aspect_idx_mask vat_labels (hidden_size (head_config vat_head_example)) = Inr am"
    and lr: "lr_adv (head_config vat_head_example) = Some lr"
    and g: "vat_sample_grad ?v = Some g"
    and ig: "is_gradient ?L (vat_sample ?v) g"
    and el: "\<forall>idx. in_shape (shape (vat_perturbation_value ?v)) idx \<longrightarrow>
               elt am idx = (if elt vat_labels (butlast idx) = 1 \<or> elt vat_labels (butlast idx) = 2
                             then 1 else 0)
             \<and> elt (vat_sample ?v) idx = vat_rand (shape (vat_perturbation_value ?v)) idx * elt am idx
             \<and> elt (vat_perturbation_value ?v) idx
                 = elt am idx * (elt (vat_sample ?v) idx + lr * elt g idx)"
    by blast
  from g have gG: "g = G" by simp
  from lr have lr10: "lr = 10" by (simp add: vat_head_example_def vat_config_def)
  from el i have "elt P [0, 0, 0] = elt am [0, 0, 0] * (1 / 2 + lr * elt g [0, 0, 0])"
    "elt P [0, 0, 1] = elt am [0, 0, 1] * (1 / 2 + lr * elt g [0, 0, 1])"
    "elt am [0, 0, 0] = 1" "elt am [0, 0, 1] = 1"
    by (simp_all add: vat_labels_def)
  with ig gG lr10 G
  have "is_gradient ?L (Tensor [1, 1, 2] (\<lambda>idx. 1 / 2)) G
        \<and> elt P [0, 0, 0] = 11 / 2 \<and> elt P [0, 0, 1] = - 9 / 2"
    by simp
  with run G show ?thesis by simp
qed


lemma vat_perturbation_state:
  assumes run: "vat_perturbation head ag rand inp labels marks = Inr v"
  obtains l where "labels = Some l"
    "vat_sample_grad v = Some (grad_wrt_sample ag (first_pass_loss head inp l marks) (vat_sample v))"
    "vat_recorded v = (\<lambda>x. Inr (vat_perturbation_value v))"
    "vat_head v = zero_grad (snd (backward ag (first_pass_loss head inp l marks) (vat_sample v) head))"
proof -
  from run obtain l where l: "labels = Some l"
    by (cases labels) (simp_all add: vat_perturbation_def)
  from run [unfolded l] have
    "vat_sample_grad v = Some (grad_wrt_sample ag (first_pass_loss head inp l marks) (vat_sample v))
     \<and> vat_recorded v = (\<lambda>x. Inr (vat_perturbation_value v))
     \<and> vat_head v = zero_grad (snd (backward ag (first_pass_loss head inp l marks) (vat_sample v) head))"
    unfolding vat_perturbation_def Let_def backward_def no_grad_def
    by (auto simp: ebind_eq_Inr the_attr_def split: option.splits)
  with l that show ?thesis by blast
qed

lemma is_gradient_const:
  "is_gradient (\<lambda>x. Inr c) x g \<longleftrightarrow>
     shape g = shape x \<and> (\<forall>idx \<in> set (indices (shape x)). elt g idx = 0)"
proof -
  have "((\<lambda>t::real. c) has_real_derivative D) (at 0) \<longleftrightarrow> D = 0" for D :: real
    using DERIV_unique [of "\<lambda>t. c" D 0 0] by auto
  then show ?thesis
    by (simp add: is_gradient_def)
qed

text \<open>
  Claim C3.  In training mode with adversarial training, whenever \<open>forward\<close>
  returns: the first backward pass added its contribution to the gradient buffers
  of the parameters, \<open>zero_grad\<close> emptied them, and the second pass ran on the head
  with empty buffers.  The perturbation was computed under \<open>no_grad\<close>, so the loss
  that is returned is recorded as a constant in the masked sample of the first
  pass: its gradient with respect to that sample exists and is zero at every index,
  and so is what a gradient engine that differentiates it must return.  (The
  gradient that the first backward pass stored on the sample itself is not a buffer
  of a parameter, and \<open>zero_grad\<close> leaves it.)
\<close>

theorem first_pass_gradients_cleared:
  assumes "head_forward head ag rand inp labels True (Some ''train'') marks = Inr (out, head')"
  shows "\<exists>v l loss.
           labels = Some l
         \<and> vat_perturbation head ag rand inp labels marks = Inr v
         \<and> param_grads (snd (backward ag (first_pass_loss head inp l marks) (vat_sample v) head))
             = param_grads head @ [grad_wrt_parameters ag (first_pass_loss head inp l marks) (vat_sample v)]
         \<and> head' = zero_grad (snd (backward ag (first_pass_loss head inp l marks) (vat_sample v) head))
         \<and> param_grads head' = []
         \<and> second_pass head' inp labels True (Some ''train'') marks
               (PyTensor (vat_perturbation_value v))
               (\<lambda>x. Inr (PyTensor (vat_perturbation_value v))) = Inr out
         \<and> out_loss out = Some loss
         \<and> (\<forall>x. loss_recorded out x = Inr loss)
         \<and> (\<forall>x g. is_gradient (loss_recorded out) x g \<longleftrightarrow>
                shape g = shape x \<and> (\<forall>idx \<in> set (indices (shape x)). elt g idx = 0))
         \<and> (\<forall>x. is_gradient (loss_recorded out) x (grad_wrt_sample ag (loss_recorded out) x)
                \<longrightarrow> (\<forall>idx \<in> set (indices (shape x)).
                       elt (grad_wrt_sample ag (loss_recorded out) x) idx = 0))"
proof -
  from assms obtain v where
    vp: "vat_perturbation head ag rand inp labels marks = Inr v"
    and h': "head' = vat_head v"
    and sp: "second_pass (vat_head v) inp labels True (Some ''train'') marks
               (PyTensor (vat_perturbation_value v))
               (\<lambda>x. ebind (vat_recorded v x) (\<lambda>p. Inr (PyTensor p))) = Inr out"
    unfolding head_forward_def by (auto simp: ebind_eq_Inr)
  from vp obtain l where l: "labels = Some l"
    and rec: "vat_recorded v = (\<lambda>x. Inr (vat_perturbation_value v))"
    and vh: "vat_head v = zero_grad (snd (backward ag (first_pass_loss head inp l marks) (vat_sample v) head))"
    by (rule vat_perturbation_state)
  from sp have sp': "second_pass head' inp labels True (Some ''train'') marks
               (PyTensor (vat_perturbation_value v))
               (\<lambda>x. Inr (PyTensor (vat_perturbation_value v))) = Inr out"
    by (simp add: rec h' ebind_simps)
  then obtain loss logits hs where
    po: "pass_outputs head' inp labels True (Some ''train'') marks
           (PyTensor (vat_perturbation_value v)) = Inr (loss, logits, hs)"
    and out: "out = \<lparr>out_loss = loss, out_logits = logits, out_hidden_states = hs,
            loss_recorded = (\<lambda>x.
              ebind (Inr (PyTensor (vat_perturbation_value v))) (\<lambda>p.
              ebind (pass_outputs head' inp labels True (Some ''train'') marks p)
                (\<lambda>(loss, logits, hs). the_attr ''backward'' loss)))\<rparr>"
    unfolding second_pass_def by (auto simp: ebind_eq_Inr)
  from po l obtain c where c: "loss = Some c"
    unfolding pass_outputs_def Let_def by (auto simp: ebind_eq_Inr)
  have lrec: "loss_recorded out = (\<lambda>x. Inr c)"
    by (simp add: out po c ebind_simps the_attr_def)
  have pg: "param_grads head' = []"
    by (simp add: h' vh zero_grad_def)
  have bw: "param_grads (snd (backward ag (first_pass_loss head inp l marks) (vat_sample v) head))
             = param_grads head @ [grad_wrt_parameters ag (first_pass_loss head inp l marks) (vat_sample v)]"
    by (simp add: backward_def)
  have oc: "out_loss out = Some c"
    by (simp add: out c)
  show ?thesis
    apply (intro exI [of _ v] exI [of _ l] exI [of _ c] conjI)
             apply (rule l)
            apply (rule vp)
           apply (rule bw)
          apply (simp add: h' vh)
         apply (rule pg)
        apply (rule sp')
       apply (rule oc)
      apply (simp add: lrec)
     apply (simp add: lrec is_gradient_const)
    apply (simp add: lrec is_gradient_const)
    done
qed

lemma vat_example_forward:
  obtains out where
    "head_forward vat_head_example vat_engine vat_rand vat_inputs (Some vat_labels) True
       (Some ''train'') None = Inr (out, vat_head_example\<lparr>param_grads := []\<rparr>)"
proof -
  obtain P G where
    run: "vat_perturbation vat_head_example vat_engine vat_rand vat_inputs (Some vat_labels) None
       = Inr \<lparr>vat_perturbation_value = P, vat_recorded = (\<lambda>x. Inr P),
              vat_sample = Tensor [1, 1, 2] (\<lambda>idx. 1 / 2), vat_sample_grad = Some G,
              vat_head = vat_head_example\<lparr>param_grads := []\<rparr>\<rparr>"
    and sP: "shape P = [1, 1, 2]"
    by (rule vat_example_state)
  from sP have P: "P = Tensor [Suc 0, Suc 0, 2] (elt P)"
    by (cases P) simp
  have "\<exists>out. head_forward vat_head_example vat_engine vat_rand vat_inputs (Some vat_labels) True
       (Some ''train'') None = Inr (out, vat_head_example\<lparr>param_grads := []\<rparr>)"
    apply (simp add: head_forward_def run ebind_simps second_pass_def)
    apply (subst P)
    apply (simp add: vat_pass_outputs [unfolded One_nat_def] ebind_simps)
    done
  then show ?thesis using that by blast
qed

theorem first_pass_gradients_cleared_witness:
  "head_forward vat_head_example vat_engine vat_rand vat_inputs (Some vat_labels) True
       (Some ''train'') None
     = Inr (projr (head_forward vat_head_example vat_engine vat_rand vat_inputs (Some vat_labels)
                     True (Some ''train'') None))
   \<and> param_grads vat_head_example = [7]
   \<and> param_grads (snd (projr (head_forward vat_head_example vat_engine vat_rand vat_inputs
        (Some vat_labels) True (Some ''train'') None))) = []
   \<and> loss_recorded (fst (projr (head_forward vat_head_example vat_engine vat_rand vat_inputs
        (Some vat_labels) True (Some ''train'') None))) (Tensor [1, 1, 2] (\<lambda>idx. 0))
     = loss_recorded (fst (projr (head_forward vat_head_example vat_engine vat_rand vat_inputs
        (Some vat_labels) True (Some ''train'') None))) (Tensor [1, 1, 2] (\<lambda>idx. 1))
   \<and> is_gradient (loss_recorded (fst (projr (head_forward vat_head_example vat_engine vat_rand
        vat_inputs (Some vat_labels) True (Some ''train'') None))))
        (Tensor [1, 1, 2] (\<lambda>idx. 1 / 2)) (Tensor [1, 1, 2] (\<lambda>idx. 0))"
proof -
  obtain out where F: "head_forward vat_head_example vat_engine vat_rand vat_inputs
       (Some vat_labels) True (Some ''train'') None = Inr (out, vat_head_example\<lparr>param_grads := []\<rparr>)"
    by (rule vat_example_forward)
  from first_pass_gradients_cleared [OF F] obtain loss where
    c: "\<forall>x. loss_recorded out x = Inr loss"
    and g: "\<forall>x g. is_gradient (loss_recorded out) x g \<longleftrightarrow>
                shape g = shape x \<and> (\<forall>idx \<in> set (indices (shape x)). elt g idx = 0)"
    by blast
  from g have "is_gradient (loss_recorded out) (Tensor [1, 1, 2] (\<lambda>idx. 1 / 2))
                 (Tensor [1, 1, 2] (\<lambda>idx. 0))"
    by simp
  with c F show ?thesis
    by (simp add: vat_head_example_def)
qed

text \<open>
  The gradient that the first backward pass stored on the masked sample is still
  there when the second pass begins, although the buffers of the parameters are
  empty.
\<close>

theorem first_pass_sample_gradient_kept:
  "vat_sample_grad (projr (vat_perturbation vat_head_example vat_engine vat_rand vat_inputs
       (Some vat_labels) None)) \<noteq> None
   \<and> elt (the (vat_sample_grad (projr (vat_perturbation vat_head_example vat_engine vat_rand
       vat_inputs (Some vat_labels) None)))) [0, 0, 0] = 1 / 2
   \<and> param_grads (vat_head (projr (vat_perturbation vat_head_example vat_engine vat_rand
       vat_inputs (Some vat_labels) None))) = []"
proof -
  obtain P G where
    run: "vat_perturbation vat_head_example vat_engine vat_rand vat_inputs (Some vat_labels) None
       = Inr \<lparr>vat_perturbation_value = P, vat_recorded = (\<lambda>x. Inr P),
              vat_sample = Tensor [1, 1, 2] (\<lambda>idx. 1 / 2), vat_sample_grad = Some G,
              vat_head = vat_head_example\<lparr>param_grads := []\<rparr>\<rparr>"
    and G: "elt G [0, 0, 0] = 1 / 2"
    by (rule vat_example_state)
  then show ?thesis by simp
qed

text \<open>
  The zero gradient is owed to \<open>no_grad\<close>: had the masked sample itself been
  handed to the second pass, the returned loss would be recorded as a function of
  it, with a gradient that is not zero.
\<close>

lemma sample_handed_on_would_leak:
  assumes "second_pass vat_head_example vat_inputs (Some vat_labels) True (Some ''train'') None
             (PyTensor (Tensor [1, 1, 2] (\<lambda>idx. 1 / 2))) (\<lambda>x. Inr (PyTensor x)) = Inr out"
  shows "\<not> is_gradient (loss_recorded out) (Tensor [1, 1, 2] (\<lambda>idx. 1 / 2)) (Tensor [1, 1, 2] (\<lambda>idx. 0))"
proof
  assume z: "is_gradient (loss_recorded out) (Tensor [1, 1, 2] (\<lambda>idx. 1 / 2)) (Tensor [1, 1, 2] (\<lambda>idx. 0))"
  have h: "vat_head_example = vat_head_example\<lparr>param_grads := [7]\<rparr>"
    by (simp add: vat_head_example_def)
  from assms have lr: "loss_recorded out = (\<lambda>x. ebind
       (pass_outputs vat_head_example vat_inputs (Some vat_labels) True (Some ''train'') None (PyTensor x))
       (\<lambda>(loss, logits, hs). the_attr ''backward'' loss))"
    unfolding second_pass_def by (auto simp: ebind_eq_Inr ebind_simps)
  have i: "[0, 0, 0] \<in> set (indices [Suc 0, Suc 0, 2])"
    by (simp add: upt_rec numeral_2_eq_2)
  have po: "pass_outputs vat_head_example vat_inputs (Some vat_labels) True (Some ''train'') None
              (PyTensor (Tensor [Suc 0, Suc 0, 2] f))
            = Inr (Some (ln (exp (2 + f [0, 0, 0]) + exp (2 + f [0, 0, Suc 0])) - (2 + f [0, 0, Suc 0])),
                Tensor [Suc 0, Suc 0, 2] (\<lambda>idx. 2 + f (bidx [Suc 0, Suc 0, 2] idx)),
                [Tensor [Suc 0, Suc 0, 2] (\<lambda>idx. f (bidx [Suc 0, Suc 0, 2] idx)),
                 Tensor [Suc 0, Suc 0, 2] (\<lambda>idx. f (bidx [Suc 0, Suc 0, 2] idx) + 1),
                 Tensor [Suc 0, Suc 0, 2] (\<lambda>idx. 2 + f (bidx [Suc 0, Suc 0, 2] idx))])" for f
    by (subst h) (rule vat_pass_outputs [unfolded One_nat_def])
  have d0: "((\<lambda>t. ln (exp (2 + (1 / 2 + t)) + exp (2 + 1 / 2)) - (2 + 1 / 2))
                 has_real_derivative 0) (at 0)"
  proof -
    from z have "\<forall>idx \<in> set (indices [Suc 0, Suc 0, 2]).
        ((\<lambda>t. projr (loss_recorded out (bump (Tensor [Suc 0, Suc 0, 2] (\<lambda>idx. 1 / 2)) idx t)))
           has_real_derivative 0) (at 0)"
      by (simp add: is_gradient_def del: indices.simps)
    from bspec [OF this i] show ?thesis
      by (simp add: lr bump_def po ebind_simps the_attr_def)
  qed
  have d1: "((\<lambda>t. ln (exp (2 + (1 / 2 + t)) + exp (2 + 1 / 2)) - (2 + 1 / 2))
                 has_real_derivative exp (2 + 1 / 2) / (exp (2 + 1 / 2) + exp (2 + 1 / 2))) (at 0)"
    by (auto intro!: derivative_eq_intros simp: add_pos_pos)
  from DERIV_unique [OF d0 d1] show False
    by simp
qed

section \<open>The attention bias: results\<close>







lemma unravel_2: "j < K \<Longrightarrow> b < B \<Longrightarrow> unravel [B, K] (b * K + j) = [b, j]"
  by simp










subsection \<open>Evaluation of the tensor operations on rank-4 inputs\<close>





lemma transpose_last_4:
  "shape t = [b, h, m, n] \<Longrightarrow>
   transpose_last t = Inr (Tensor [b, h, n, m] (\<lambda>idx. elt t (take 2 idx @ [idx ! 3, idx ! 2])))"
  by (simp add: transpose_last_def rank_def Let_def numeral_2_eq_2 numeral_3_eq_3)











lemma clamp_range:
  "lo \<le> hi \<Longrightarrow> lo \<le> elt (clamp t lo hi) idx \<and> elt (clamp t lo hi) idx \<le> hi"
  by (simp add: clamp_def tmap_def)

lemma clamp_below:
  "lo \<le> hi \<Longrightarrow> hi < n \<Longrightarrow> \<forall>idx. lo \<le> elt (clamp t lo hi) idx \<and> elt (clamp t lo hi) idx < n"
  by (auto simp: clamp_def tmap_def)

lemma shape_clamp [simp]: "shape (clamp t lo hi) = shape t"
  by (simp add: clamp_def tmap_def)

lemma shape_tmap [simp]: "shape (tmap f t) = shape t"
  by (simp add: tmap_def)

lemma elt_tmap [simp]: "elt (tmap f t) idx = f (elt t idx)"
  by (simp add: tmap_def)

lemma debug_item_2:
  "shape t = [B, H, Q, K] \<Longrightarrow> debug_item t [x, y] = (if x < B \<and> y < H then Inr () else Inl IndexError)"
  by (simp add: debug_item_def rank_def)

lemma debug_item_3:
  "shape t = [B, H, Q, K] \<Longrightarrow>
   debug_item t [x, y, z] = (if x < B \<and> y < H \<and> z < Q then Inr () else Inl IndexError)"
  by (simp add: debug_item_def rank_def)

lemma p2c_term_plain:
  assumes g: "p2c_gather q key pql p2c_pos = Inr g" and sg: "shape g = [B, H, K, K]"
    and plain: "marks = None \<or> me = None \<or> ''p2c_pp'' \<notin> set (pos_att_type self)"
  shows "p2c_term self q key pql p2c_pos layers me marks =
     (if 2 \<le> B \<and> 1 \<le> H
      then Inr \<lparr>p2c_att = Tensor [B, H, K, K] (\<lambda>idx. elt g (take 2 idx @ [idx ! 3, idx ! 2])),
                p2c_att_orig = Tensor [B, H, K, K] (\<lambda>idx. elt g (take 2 idx @ [idx ! 3, idx ! 2])),
                p2c_att_pp = None\<rparr>
      else Inl IndexError)"
  using plain
  by (auto simp: p2c_term_def g transpose_last_4 [OF sg] debug_item_2 ebind_simps
      split: option.splits)

lemma c2p_term_plain:
  assumes pkl: "pos_key_layer layers = Some pkl"
    and g: "c2p_gather q pkl (clamp (tmap (\<lambda>v. v + att_span) rp) 0 (att_span * 2 - 1)) rp = Inr att"
    and plain: "marks = None \<or> me = None \<or> ''c2p_pp'' \<notin> set (pos_att_type self)"
  shows "c2p_term self q rp att_span layers me marks =
     Inr \<lparr>c2p_att = att, c2p_att_orig = att, c2p_att_pp = None\<rparr>"
  using plain
  by (auto simp: c2p_term_def pkl g the_local_def ebind_simps Let_def split: option.splits)








section \<open>The rank test of the attention bias: results\<close>























end
